theory Spec2Isabelle
  imports Main "HOL-Library.Sublist"
begin

section \<open>JavaScript strings\<close>

text \<open>
  A JavaScript string is a sequence of UTF-16 code units; a code unit is modelled by its
  number. The literals of the source are written as code-unit lists; \<open>ascii\<close> turns an
  ASCII literal into one.
\<close>

type_synonym jstring = "nat list"

definition ascii :: "string \<Rightarrow> jstring" where
  "ascii s = map of_char s"

text \<open>
  The class \<open>\s\<close> of a regular expression and the characters removed by
  \<open>String.prototype.trim\<close> are the same set: WhiteSpace and LineTerminator of ECMAScript.
\<close>

definition is_ws :: "nat \<Rightarrow> bool" where
  "is_ws c = (c \<in> {9, 10, 11, 12, 13, 32, 160, 5760, 8232, 8233, 8239, 8287, 12288, 65279}
              \<or> (8192 \<le> c \<and> c \<le> 8202))"

text \<open>The characters that \<open>.\<close> of a regular expression does not match.\<close>

definition is_line_terminator :: "nat \<Rightarrow> bool" where
  "is_line_terminator c = (c \<in> {10, 13, 8232, 8233})"

text \<open>\<open>s.trim()\<close>\<close>

definition trim :: "jstring \<Rightarrow> jstring" where
  "trim s = rev (dropWhile is_ws (rev (dropWhile is_ws s)))"

text \<open>\<open>text.split('\n')\<close>: the result has one more entry than the text has line feeds.\<close>

fun split_nl :: "jstring \<Rightarrow> jstring list" where
  "split_nl [] = [[]]"
| "split_nl (c # cs) =
     (if c = 10 then [] # split_nl cs
      else (case split_nl cs of [] \<Rightarrow> [[c]] | l # ls \<Rightarrow> (c # l) # ls))"

text \<open>\<open>lines.join('\n')\<close>\<close>

fun join_nl :: "jstring list \<Rightarrow> jstring" where
  "join_nl [] = []"
| "join_nl [l] = l"
| "join_nl (l # m # ls) = l @ 10 # join_nl (m # ls)"

text \<open>\<open>a.includes(b)\<close>: \<open>b\<close> occurs in \<open>a\<close> as a contiguous run of code units.\<close>

definition includes_str :: "jstring \<Rightarrow> jstring \<Rightarrow> bool" where
  "includes_str a b = sublist b a"

text \<open>
  Matching under the flag \<open>i\<close> compares canonicalized code units. The patterns of the
  source consist of ASCII capitals and a colon, and the canonical form of a code unit
  above 127 is never below 128, so only the ASCII letters need their upper case here.
\<close>

definition canonicalize :: "nat \<Rightarrow> nat" where
  "canonicalize c = (if 97 \<le> c \<and> c \<le> 122 then c - 32 else c)"

text \<open>
  The literal part of the pattern, anchored by \<open>^\<close> at the start of the input: the
  result is the input that follows the literal, or \<open>None\<close> when the literal does not
  match.
\<close>

fun match_literal_i :: "jstring \<Rightarrow> jstring \<Rightarrow> jstring option" where
  "match_literal_i [] s = Some s"
| "match_literal_i (p # ps) [] = None"
| "match_literal_i (p # ps) (c # cs) =
     (if canonicalize c = canonicalize p then match_literal_i ps cs else None)"

text \<open>
  \<open>line.match(/^TAG\s*(.*)/i)\<close>: \<open>None\<close> for \<open>null\<close>, otherwise capture group 1. The
  greedy \<open>\s*\<close> takes all white space after the tag and \<open>(.*)\<close> everything up to the
  first line terminator; the pattern never has to backtrack, as \<open>(.*)\<close> matches the
  empty string.
\<close>

definition match_tag :: "jstring \<Rightarrow> jstring \<Rightarrow> jstring option" where
  "match_tag tag line =
     (case match_literal_i tag line of
        None \<Rightarrow> None
      | Some rest \<Rightarrow> Some (takeWhile (\<lambda>c. \<not> is_line_terminator c) (dropWhile is_ws rest)))"

definition MODERATOR_tag :: jstring where
  "MODERATOR_tag = ascii ''MODERATOR:''"

definition SPEAKER_tag :: jstring where
  "SPEAKER_tag = ascii ''SPEAKER:''"

definition modMatch :: "jstring \<Rightarrow> jstring option" where
  "modMatch line = match_tag MODERATOR_tag line"

definition spkMatch :: "jstring \<Rightarrow> jstring option" where
  "spkMatch line = match_tag SPEAKER_tag line"

section \<open>The segmenter of \<open>DebateSession.nextTurn\<close>\<close>

datatype segment_type = moderator | debater

record TurnSegment =
  speaker :: jstring
  content :: jstring
  type :: segment_type

text \<open>The speaker name of the moderator in the source (three Chinese characters, in pinyin
  zhu chi ren), as code units.\<close>

definition zhuchiren :: jstring where
  "zhuchiren = [20027, 25345, 20154]"

text \<open>The local variables of the loop over the lines.\<close>

record seg_state =
  segments :: "TurnSegment list"
  currentSpeaker :: jstring
  currentType :: segment_type
  currentContent :: "jstring list"

definition init_state :: seg_state where
  "init_state = \<lparr>segments = [], currentSpeaker = zhuchiren, currentType = moderator,
                 currentContent = []\<rparr>"

definition flush :: "seg_state \<Rightarrow> seg_state" where
  "flush st =
     (if length (currentContent st) > 0
      then st\<lparr>segments := segments st @
                 [\<lparr>speaker = currentSpeaker st,
                   content = trim (join_nl (currentContent st)),
                   type = currentType st\<rparr>],
              currentContent := []\<rparr>
      else st)"

text \<open>The body of \<open>for (const line of lines)\<close>.\<close>

definition step :: "seg_state \<Rightarrow> jstring \<Rightarrow> seg_state" where
  "step st line =
     (case modMatch line of
        Some m1 \<Rightarrow>
          (let st1 = (flush st)\<lparr>currentSpeaker := zhuchiren, currentType := moderator\<rparr>
           in if trim m1 \<noteq> []
              then st1\<lparr>currentContent := currentContent st1 @ [trim m1]\<rparr>
              else st1)
      | None \<Rightarrow>
          (case spkMatch line of
             Some s1 \<Rightarrow> (flush st)\<lparr>currentSpeaker := trim s1, currentType := debater\<rparr>
           | None \<Rightarrow> st\<lparr>currentContent := currentContent st @ [line]\<rparr>))"

text \<open>The loop and the last \<open>flush()\<close>: the segments before the fallback.\<close>

definition segment_lines :: "jstring list \<Rightarrow> TurnSegment list" where
  "segment_lines lines = segments (flush (foldl step init_state lines))"

text \<open>From \<open>text.split\<close> to the two \<open>return\<close>s of the \<open>try\<close> block.\<close>

definition segmenter :: "jstring \<Rightarrow> TurnSegment list" where
  "segmenter text =
     (let segs = segment_lines (split_nl text)
      in if length segs = 0
         then [\<lparr>speaker = zhuchiren, content = text, type = moderator\<rparr>]
         else segs)"

text \<open>A line that one of the two patterns matches.\<close>

definition is_tag_line :: "jstring \<Rightarrow> bool" where
  "is_tag_line line = (modMatch line \<noteq> None \<or> spkMatch line \<noteq> None)"

text \<open>
  A second description of the loop, for comparison with \<open>segment_lines\<close>: the lines are
  cut into blocks. The first block belongs to the moderator and every tag line opens a
  new one; a block holds its speaker, its type and the lines gathered for it, which are
  the inline text of a \<open>MODERATOR:\<close> line, when there is some, and the lines that
  follow up to the next tag line.
\<close>

type_synonym block = "jstring \<times> segment_type \<times> jstring list"

fun blocks :: "block \<Rightarrow> jstring list \<Rightarrow> block list" where
  "blocks b [] = [b]"
| "blocks (sp, ty, ls) (line # rest) =
     (case modMatch line of
        Some m1 \<Rightarrow> (sp, ty, ls) # blocks (zhuchiren, moderator, if trim m1 \<noteq> [] then [trim m1] else []) rest
      | None \<Rightarrow>
          (case spkMatch line of
             Some s1 \<Rightarrow> (sp, ty, ls) # blocks (trim s1, debater, []) rest
           | None \<Rightarrow> blocks (sp, ty, ls @ [line]) rest))"

definition block_lines :: "block \<Rightarrow> jstring list" where
  "block_lines b = snd (snd b)"

definition block_segment :: "block \<Rightarrow> TurnSegment" where
  "block_segment b =
     \<lparr>speaker = fst b, content = trim (join_nl (block_lines b)), type = fst (snd b)\<rparr>"

section \<open>Teams and \<open>DebateSession.initializeTeams\<close>\<close>

text \<open>
  The interfaces \<open>Debater\<close> and \<open>Team\<close>. The two sides are written with capitals, the
  field \<open>id\<close> is \<open>debater_id\<close>, and the fields \<open>side\<close> and \<open>name\<close> of a team carry
  the prefix \<open>team\<close>.
\<close>

datatype side = Proposition | Opposition

record Debater =
  debater_id :: jstring
  name :: jstring
  role :: jstring
  side :: side
  style :: jstring
  avatarUrl :: jstring

record Team =
  team_side :: side
  team_name :: jstring
  members :: "Debater list"

text \<open>The handle returned by \<open>ai.chats.create\<close>; it is opaque to the program and is
  tagged with the topic that its system instruction quotes.\<close>

datatype Chat = Chat jstring

record DebateSession =
  topic :: jstring
  chat :: "Chat option"
  propTeam :: "Team option"
  oppTeam :: "Team option"

text \<open>\<open>new DebateSession(topic)\<close>\<close>

definition new_session :: "jstring \<Rightarrow> DebateSession" where
  "new_session t = \<lparr>topic = t, chat = None, propTeam = None, oppTeam = None\<rparr>"

text \<open>
  What \<open>await this.chat.sendMessage(...)\<close> gives: the promise is fulfilled with a response
  whose \<open>text\<close> is a string or undefined, or it is rejected with a thrown value. Of a
  thrown value the program reads the property \<open>message\<close> only: \<open>Nullish\<close> is \<open>null\<close> or
  \<open>undefined\<close>, of which no property can be read, and \<open>Thrown m\<close> is any other value,
  with its message (\<open>None\<close> when it has none).
\<close>

datatype thrown = Nullish | Thrown "jstring option"

type_synonym reply = "thrown + jstring option"

text \<open>What a method of the session throws: an \<open>Error\<close> made by the program with its
  message, the \<open>TypeError\<close> of reading a property of \<open>null\<close> or \<open>undefined\<close>, the
  \<open>URIError\<close> of \<open>encodeURIComponent\<close>, or the value with which the backend's promise
  was rejected, passed on.\<close>

datatype error = Error jstring | TypeError | URIError | Rejected thrown

text \<open>
  The value of \<open>JSON.parse(text)\<close>, as far as the program looks at it. An entry of a
  member list is \<open>null\<close> (\<open>None\<close> here) or an object with the strings \<open>name\<close>, \<open>role\<close>
  and \<open>style\<close>, which the response schema requires. Of a team object the program reads
  \<open>members\<close>, kept when \<open>Array.isArray\<close> holds of it, and \<open>name\<close>, a string when
  present. Of the top-level value it reads \<open>proposition\<close> and \<open>opposition\<close>, each \<open>None\<close>
  here when the property is missing or falsy; reading them from \<open>null\<close> raises a
  TypeError, so \<open>null\<close> is a case of its own.
\<close>

record member_data =
  m_name :: jstring
  m_role :: jstring
  m_style :: jstring

record team_data =
  td_name :: "jstring option"
  td_members :: "member_data option list option"

datatype parsed = JSNull | JSValue "team_data option" "team_data option"

definition side_str :: "side \<Rightarrow> jstring" where
  "side_str sd = (case sd of Proposition \<Rightarrow> ascii ''proposition'' | Opposition \<Rightarrow> ascii ''opposition'')"

text \<open>
  \<open>encodeURIComponent\<close> of ECMAScript. The letters, the digits and the marks
  \<open>- _ . ! ~ * ' ( )\<close> stay; any other character is written as the octets of its UTF-8
  encoding, each as \<open>%\<close> and two upper-case hexadecimal digits. A high surrogate and the
  low surrogate after it make one character; a surrogate without its partner raises a
  URIError, which is \<open>None\<close> here.
\<close>

definition uri_unreserved :: "nat \<Rightarrow> bool" where
  "uri_unreserved c =
     ((65 \<le> c \<and> c \<le> 90) \<or> (97 \<le> c \<and> c \<le> 122) \<or> (48 \<le> c \<and> c \<le> 57)
      \<or> c \<in> {45, 95, 46, 33, 126, 42, 39, 40, 41})"

definition utf8 :: "nat \<Rightarrow> nat list" where
  "utf8 v =
     (if v < 128 then [v]
      else if v < 2048 then [192 + v div 64, 128 + v mod 64]
      else if v < 65536 then [224 + v div 4096, 128 + v div 64 mod 64, 128 + v mod 64]
      else [240 + v div 262144, 128 + v div 4096 mod 64, 128 + v div 64 mod 64,
            128 + v mod 64])"

definition hex_digit :: "nat \<Rightarrow> nat" where
  "hex_digit d = (if d < 10 then 48 + d else 55 + d)"

definition percent :: "nat \<Rightarrow> jstring" where
  "percent v = concat (map (\<lambda>b. [37, hex_digit (b div 16), hex_digit (b mod 16)]) (utf8 v))"

fun encodeURIComponent :: "jstring \<Rightarrow> jstring option" where
  "encodeURIComponent [] = Some []"
| "encodeURIComponent (c # cs) =
     (if uri_unreserved c then map_option (\<lambda>r. c # r) (encodeURIComponent cs)
      else if 56320 \<le> c \<and> c \<le> 57343 then None
      else if c < 55296 \<or> 57343 < c
        then map_option (\<lambda>r. percent c @ r) (encodeURIComponent cs)
      else (case cs of
              [] \<Rightarrow> None
            | k # ks \<Rightarrow>
                if 56320 \<le> k \<and> k \<le> 57343
                then map_option (\<lambda>r. percent ((c - 55296) * 1024 + (k - 56320) + 65536) @ r)
                       (encodeURIComponent ks)
                else None))"

text \<open>The local helper \<open>getAvatar\<close>: the URL, or the URIError of the encoding.\<close>

definition getAvatar :: "jstring \<Rightarrow> side \<Rightarrow> error + jstring" where
  "getAvatar nm sd =
     (case encodeURIComponent (nm @ ascii ''-'' @ side_str sd) of
        None \<Rightarrow> Inl URIError
      | Some seed \<Rightarrow>
          (let bg = (if sd = Proposition then ascii ''ecfccb'' else ascii ''ffe4e6'')
           in Inr (ascii ''https://api.dicebear.com/9.x/micah/png?seed='' @ seed
                   @ ascii ''&backgroundColor='' @ bg
                   @ ascii ''&backgroundType=gradientLinear&radius=50'')))"

text \<open>The decimal digits of an index, as a template literal writes it.\<close>

function digits :: "nat \<Rightarrow> jstring" where
  "digits n = (if n < 10 then [48 + n] else digits (n div 10) @ [48 + n mod 10])"
  by pat_completeness auto
termination
  by (relation "measure id") auto

declare digits.simps [simp del]

text \<open>The placeholder members pushed into an empty list, and the default team names.\<close>

definition placeholder :: "side \<Rightarrow> member_data" where
  "placeholder sd =
     \<lparr>m_name = (case sd of Proposition \<Rightarrow> [27491, 26041, 36777, 25163, 32, 49]
                         | Opposition \<Rightarrow> [21453, 26041, 36777, 25163, 32, 49]),
      m_role = [36777, 25163], m_style = [26631, 20934]\<rparr>"

definition default_team_name :: "side \<Rightarrow> jstring" where
  "default_team_name sd = (case sd of Proposition \<Rightarrow> [27491, 26041] | Opposition \<Rightarrow> [21453, 26041])"

definition id_prefix :: "side \<Rightarrow> jstring" where
  "id_prefix sd = (case sd of Proposition \<Rightarrow> ascii ''prop-'' | Opposition \<Rightarrow> ascii ''opp-'')"

text \<open>\<open>data.proposition || {}\<close>\<close>

definition team_data_or_empty :: "team_data option \<Rightarrow> team_data" where
  "team_data_or_empty d = (case d of None \<Rightarrow> \<lparr>td_name = None, td_members = None\<rparr> | Some td \<Rightarrow> td)"

text \<open>\<open>Array.isArray(propData.members) ? propData.members : []\<close> and the \<open>push\<close> of the
  placeholder into an empty list.\<close>

definition member_list :: "side \<Rightarrow> team_data \<Rightarrow> member_data option list" where
  "member_list sd td =
     (let ms = (case td_members td of Some l \<Rightarrow> l | None \<Rightarrow> [])
      in if length ms = 0 then ms @ [Some (placeholder sd)] else ms)"

text \<open>The member list and the team name that a parsed configuration gives for a side:
  the list is empty when the team, or its list, is missing.\<close>

definition parsed_members :: "team_data option \<Rightarrow> member_data option list" where
  "parsed_members d =
     (case d of None \<Rightarrow> []
      | Some td \<Rightarrow> (case td_members td of None \<Rightarrow> [] | Some l \<Rightarrow> l))"

definition parsed_name :: "team_data option \<Rightarrow> jstring option" where
  "parsed_name d = (case d of None \<Rightarrow> None | Some td \<Rightarrow> td_name td)"

text \<open>An entry on which the function given to \<open>map\<close> does not throw: an object whose
  name, with the side appended, can be encoded.\<close>

definition usable_entry :: "side \<Rightarrow> member_data option \<Rightarrow> bool" where
  "usable_entry sd e =
     (case e of
        None \<Rightarrow> False
      | Some m \<Rightarrow> encodeURIComponent (m_name m @ ascii ''-'' @ side_str sd) \<noteq> None)"


text \<open>
  The object built by the function given to \<open>members.map\<close>, for the index and the entry:
  reading \<open>m.name\<close> of \<open>null\<close> raises a TypeError, and \<open>getAvatar\<close> may raise.
\<close>

definition make_debater :: "side \<Rightarrow> nat \<times> member_data option \<Rightarrow> error + Debater" where
  "make_debater sd im =
     (case im of
        (i, None) \<Rightarrow> Inl TypeError
      | (i, Some m) \<Rightarrow>
          (case getAvatar (m_name m) sd of
             Inl e \<Rightarrow> Inl e
           | Inr url \<Rightarrow>
               Inr \<lparr>debater_id = id_prefix sd @ digits i, name = m_name m, role = m_role m,
                    side = sd, style = m_style m, avatarUrl = url\<rparr>))"

text \<open>\<open>Array.prototype.map\<close> with a function that may throw: the entries are taken in
  order and the first throw ends the call.\<close>

fun map_members ::
  "(nat \<times> member_data option \<Rightarrow> error + Debater) \<Rightarrow> (nat \<times> member_data option) list
   \<Rightarrow> error + Debater list" where
  "map_members f [] = Inr []"
| "map_members f (x # xs) =
     (case f x of
        Inl e \<Rightarrow> Inl e
      | Inr d \<Rightarrow> (case map_members f xs of Inl e \<Rightarrow> Inl e | Inr ds \<Rightarrow> Inr (d # ds)))"

text \<open>The object assigned to \<open>this.propTeam\<close> or \<open>this.oppTeam\<close>.\<close>

definition make_team :: "side \<Rightarrow> team_data \<Rightarrow> error + Team" where
  "make_team sd td =
     (case map_members (make_debater sd) (enumerate 0 (member_list sd td)) of
        Inl e \<Rightarrow> Inl e
      | Inr ds \<Rightarrow>
          Inr \<lparr>team_side = sd,
               team_name = (case td_name td of None \<Rightarrow> default_team_name sd
                            | Some n \<Rightarrow> if n = [] then default_team_name sd else n),
               members = ds\<rparr>)"

text \<open>
  \<open>initializeTeams\<close>: the result or the error thrown, and the session afterwards.
  \<open>JSON_parse\<close> is \<open>JSON.parse\<close> (\<open>None\<close> when it raises a SyntaxError) and \<open>r\<close> is the
  outcome of the one \<open>sendMessage\<close>. The chat is created before the message is sent, and
  \<open>this.propTeam\<close> is assigned before the members of the opposition are mapped.
\<close>

definition initializeTeams ::
  "(jstring \<Rightarrow> parsed option) \<Rightarrow> DebateSession \<Rightarrow> reply
   \<Rightarrow> (error + Team \<times> Team) \<times> DebateSession" where
  "initializeTeams JSON_parse s r =
     (let s1 = s\<lparr>chat := Some (Chat (topic s))\<rparr>
      in case r of
           Inl e \<Rightarrow> (Inl (Rejected e), s1)
         | Inr None \<Rightarrow> (Inl (Error (ascii ''No response from AI'')), s1)
         | Inr (Some text) \<Rightarrow>
             if text = [] then (Inl (Error (ascii ''No response from AI'')), s1)
             else (case JSON_parse text of
                     None \<Rightarrow> (Inl (Error (ascii ''Failed to parse debate teams configuration.'')), s1)
                   | Some JSNull \<Rightarrow> (Inl TypeError, s1)
                   | Some (JSValue p q) \<Rightarrow>
                       (case make_team Proposition (team_data_or_empty p) of
                          Inl e \<Rightarrow> (Inl e, s1)
                        | Inr pt \<Rightarrow>
                            (case make_team Opposition (team_data_or_empty q) of
                               Inl e \<Rightarrow> (Inl e, s1\<lparr>propTeam := Some pt\<rparr>)
                             | Inr ot \<Rightarrow>
                                 (Inr (pt, ot), s1\<lparr>propTeam := Some pt, oppTeam := Some ot\<rparr>)))))"

section \<open>\<open>DebateSession.nextTurn\<close>\<close>

text \<open>The default prompt of the source, as code units.\<close>

definition default_prompt :: jstring where
  "default_prompt =
     [35831, 32487, 32493, 19979, 19968, 36718, 36777, 35770, 21457, 35328, 12290, 20005,
      26684, 36981, 23432, 32, 39, 77, 79, 68, 69, 82, 65, 84, 79, 82, 58, 39, 32, 21644, 32,
      39, 83, 80, 69, 65, 75, 69, 82, 58, 39, 32, 26684, 24335, 12290]"

text \<open>\<open>let message = userInput || default\<close>: an empty string is falsy.\<close>

definition outbound :: "jstring option \<Rightarrow> jstring" where
  "outbound userInput =
     (case userInput of None \<Rightarrow> default_prompt
      | Some u \<Rightarrow> if u = [] then default_prompt else u)"

text \<open>
  The part of \<open>nextTurn\<close> that runs before the \<open>await\<close>: the check of the chat, and
  the message that is sent through it.
\<close>

definition nextTurn_send :: "DebateSession \<Rightarrow> jstring option \<Rightarrow> error + jstring" where
  "nextTurn_send s userInput =
     (case chat s of
        None \<Rightarrow> Inl (Error (ascii ''Chat not initialized''))
      | Some c \<Rightarrow> Inr (outbound userInput))"

text \<open>\<open>(e as any).message\<close> of a value that is not \<open>null\<close> or \<open>undefined\<close>, appended to
  a string: a missing property reads \<open>undefined\<close>.\<close>

definition message_of :: "jstring option \<Rightarrow> jstring" where
  "message_of m = (case m of None \<Rightarrow> ascii ''undefined'' | Some text \<Rightarrow> text)"

text \<open>
  The part after the \<open>await\<close>, inside \<open>try\<close> and \<open>catch\<close>. The speaker of the segment
  made in \<open>catch\<close> is the two-character name of the system, its content starts with the
  four characters of "generation error", a colon and a space. Reading \<open>message\<close> of
  \<open>null\<close> or \<open>undefined\<close> raises a TypeError inside \<open>catch\<close>, which nothing handles.
\<close>

definition nextTurn_receive :: "reply \<Rightarrow> error + TurnSegment list" where
  "nextTurn_receive r =
     (case r of
        Inl Nullish \<Rightarrow> Inl TypeError
      | Inl (Thrown m) \<Rightarrow>
          Inr [\<lparr>speaker = [31995, 32479],
                content = [29983, 25104, 38169, 35823, 58, 32] @ message_of m,
                type = moderator\<rparr>]
      | Inr t \<Rightarrow> Inr (segmenter (case t of None \<Rightarrow> [] | Some text \<Rightarrow> text)))"

text \<open>One whole call; \<open>backend\<close> answers the message sent.\<close>

definition nextTurn ::
  "DebateSession \<Rightarrow> jstring option \<Rightarrow> (jstring \<Rightarrow> reply) \<Rightarrow> error + TurnSegment list" where
  "nextTurn s userInput backend =
     (case nextTurn_send s userInput of
        Inl e \<Rightarrow> Inl e
      | Inr message \<Rightarrow> nextTurn_receive (backend message))"

text \<open>
  Calls that overlap. A call of the asynchronous \<open>nextTurn\<close> runs up to its \<open>await\<close> and
  is then suspended until the backend answers; \<open>in_flight\<close> lists the messages of the
  suspended calls, oldest first. The class has no field besides those of
  \<open>DebateSession\<close>, so a call changes nothing but this list.
\<close>

record running =
  session :: DebateSession
  in_flight :: "jstring list"

definition call_nextTurn :: "running \<Rightarrow> jstring option \<Rightarrow> error + running" where
  "call_nextTurn w userInput =
     (case nextTurn_send (session w) userInput of
        Inl e \<Rightarrow> Inl e
      | Inr message \<Rightarrow> Inr (w\<lparr>in_flight := in_flight w @ [message]\<rparr>))"

text \<open>The backend answers the oldest suspended call, which then returns its segments
  or throws.\<close>

definition answer_nextTurn ::
  "running \<Rightarrow> reply \<Rightarrow> ((error + TurnSegment list) \<times> running) option" where
  "answer_nextTurn w r =
     (case in_flight w of
        [] \<Rightarrow> None
      | m # ms \<Rightarrow> Some (nextTurn_receive r, w\<lparr>in_flight := ms\<rparr>))"

section \<open>The caller: \<open>triggerNextTurn\<close>\<close>

datatype speaker_side = side_proposition | side_opposition | side_moderator

datatype message_role = role_user | role_model | role_system

text \<open>A \<open>Message\<close> without its random \<open>id\<close> and its \<open>timestamp\<close>; the fields \<open>role\<close>,
  \<open>avatarUrl\<close> and \<open>content\<close> carry the prefix \<open>msg\<close> here, as a \<open>Debater\<close> and a
  \<open>TurnSegment\<close> have fields of these names.\<close>

record Message =
  msg_role :: message_role
  speakerName :: "jstring option"
  speakerSide :: "speaker_side option"
  msg_avatarUrl :: "jstring option"
  msg_content :: jstring

text \<open>The state of the component that \<open>triggerNextTurn\<close> reads and sets: \<open>speaking\<close> is
  the state \<open>currentSpeaker\<close> and \<open>error_text\<close> the state \<open>error\<close> of the source.\<close>

record App =
  isLoadingTurn :: bool
  messages :: "Message list"
  speaking :: "jstring option"
  error_text :: "jstring option"

text \<open>
  \<open>s.toLowerCase().replace(/\s/g, '')\<close>. The case mapping of the JavaScript engine is
  the parameter \<open>lc\<close>.
\<close>

definition normalize :: "(jstring \<Rightarrow> jstring) \<Rightarrow> jstring \<Rightarrow> jstring" where
  "normalize lc s = filter (\<lambda>c. \<not> is_ws c) (lc s)"

text \<open>The predicate given to \<open>find\<close>, for the normalized label \<open>n\<close>.\<close>

definition qualifies :: "(jstring \<Rightarrow> jstring) \<Rightarrow> jstring \<Rightarrow> Debater \<Rightarrow> bool" where
  "qualifies lc n m =
     (let mn = normalize lc (name m) in includes_str mn n \<or> includes_str n mn)"

text \<open>\<open>team?.members.find(...)\<close>\<close>

definition find_member :: "(jstring \<Rightarrow> jstring) \<Rightarrow> jstring \<Rightarrow> Team option \<Rightarrow> Debater option" where
  "find_member lc n team =
     (case team of None \<Rightarrow> None | Some t \<Rightarrow> find (qualifies lc n) (members t))"

text \<open>The members that \<open>find\<close> goes through, in its order: none when the team is not set.\<close>

definition roster :: "Team option \<Rightarrow> Debater list" where
  "roster team = (case team of None \<Rightarrow> [] | Some t \<Rightarrow> members t)"

text \<open>
  The body of the loop over the segments up to \<open>addMessage\<close>: the message added and the
  value given to \<open>setCurrentSpeaker\<close>.
\<close>

definition attribute ::
  "(jstring \<Rightarrow> jstring) \<Rightarrow> DebateSession \<Rightarrow> TurnSegment \<Rightarrow> Message \<times> jstring option" where
  "attribute lc s segment =
     (let n = normalize lc (speaker segment);
          propMember = find_member lc n (propTeam s);
          oppMember = find_member lc n (oppTeam s)
      in case propMember of
           Some m \<Rightarrow>
             (\<lparr>msg_role = role_model, speakerName = Some (name m),
               speakerSide = Some side_proposition, msg_avatarUrl = Some (avatarUrl m),
               msg_content = content segment\<rparr>, Some (name m))
         | None \<Rightarrow>
             (case oppMember of
                Some m \<Rightarrow>
                  (\<lparr>msg_role = role_model, speakerName = Some (name m),
                    speakerSide = Some side_opposition, msg_avatarUrl = Some (avatarUrl m),
                    msg_content = content segment\<rparr>, Some (name m))
              | None \<Rightarrow>
                  (\<lparr>msg_role = role_model, speakerName = Some (speaker segment),
                    speakerSide = Some side_moderator, msg_avatarUrl = None,
                    msg_content = content segment\<rparr>, None)))"

definition deliver :: "(jstring \<Rightarrow> jstring) \<Rightarrow> DebateSession \<Rightarrow> App \<Rightarrow> TurnSegment \<Rightarrow> App" where
  "deliver lc s app segment =
     (case attribute lc s segment of
        (msg, cur) \<Rightarrow> app\<lparr>messages := messages app @ [msg], speaking := cur\<rparr>)"

text \<open>
  \<open>triggerNextTurn\<close> before its \<open>await\<close>: \<open>None\<close> when it returns at once because a turn
  is loading, otherwise the state with the flag set and the user's message added.
\<close>

definition triggerNextTurn_enter :: "App \<Rightarrow> jstring option \<Rightarrow> App option" where
  "triggerNextTurn_enter app userInterjection =
     (if isLoadingTurn app then None
      else Some (let app1 = app\<lparr>isLoadingTurn := True\<rparr>
                 in case userInterjection of
                      None \<Rightarrow> app1
                    | Some u \<Rightarrow>
                        if u = [] then app1
                        else app1\<lparr>messages := messages app1 @
                               [\<lparr>msg_role = role_user, speakerName = Some [20320],
                                 speakerSide = None, msg_avatarUrl = None,
                                 msg_content = u\<rparr>]\<rparr>))"

text \<open>
  One whole call of \<open>triggerNextTurn\<close>, with the pauses between the segments left out;
  the session it is given is never \<open>null\<close>.
  The text set by \<open>catch\<close> is the six characters of "the turn could not be generated"
  and a full stop.
\<close>

definition triggerNextTurn ::
  "(jstring \<Rightarrow> jstring) \<Rightarrow> DebateSession \<Rightarrow> App \<Rightarrow> jstring option \<Rightarrow> (jstring \<Rightarrow> reply) \<Rightarrow> App" where
  "triggerNextTurn lc s app userInterjection backend =
     (case triggerNextTurn_enter app userInterjection of
        None \<Rightarrow> app
      | Some app1 \<Rightarrow>
          (case nextTurn s userInterjection backend of
             Inl e \<Rightarrow> app1\<lparr>error_text := Some [29983, 25104, 22238, 21512, 22833, 36133, 12290],
                          isLoadingTurn := False\<rparr>
           | Inr segs \<Rightarrow>
               (foldl (deliver lc s) app1 segs)\<lparr>speaking := None, isLoadingTurn := False\<rparr>))"

text \<open>A case mapping for examples: it agrees with \<open>toLowerCase\<close> on strings of ASCII
  and Chinese characters.\<close>

definition ascii_lower :: "jstring \<Rightarrow> jstring" where
  "ascii_lower s = map (\<lambda>c. if 65 \<le> c \<and> c \<le> 90 then c + 32 else c) s"

section \<open>Example inputs\<close>

text \<open>
  The names Lin Xiaoyu, Wang Fang and Zhang San of the examples, as code units, and a
  team configuration as the backend may return it, with its JSON text: Lin Xiaoyu is the
  one member of the proposition, Wang Fang the one member of the opposition.
\<close>

definition lin_xiaoyu :: jstring where
  "lin_xiaoyu = [26519, 26195, 23431]"

definition wang_fang :: jstring where
  "wang_fang = [29579, 33459]"

definition zhang_san :: jstring where
  "zhang_san = [24352, 19977]"

definition example_config :: parsed where
  "example_config =
     JSValue
       (Some \<lparr>td_name = Some [27491, 26041],
              td_members = Some [Some \<lparr>m_name = lin_xiaoyu, m_role = [19968, 36777],
                                        m_style = [20005, 35880]\<rparr>]\<rparr>)
       (Some \<lparr>td_name = Some [21453, 26041],
              td_members = Some [Some \<lparr>m_name = wang_fang, m_role = [19968, 36777],
                                        m_style = [29312, 21033]\<rparr>]\<rparr>)"

definition example_text :: jstring where
  "example_text =
     ascii ''{'' @ [34] @ ascii ''proposition'' @ [34] @ ascii '':{'' @ [34] @ ascii ''name''
     @ [34] @ ascii '':'' @ [34, 27491, 26041, 34] @ ascii '','' @ [34] @ ascii ''members''
     @ [34] @ ascii '':[{'' @ [34] @ ascii ''name'' @ [34] @ ascii '':''
     @ [34, 26519, 26195, 23431, 34] @ ascii '','' @ [34] @ ascii ''role'' @ [34] @ ascii '':''
     @ [34, 19968, 36777, 34] @ ascii '','' @ [34] @ ascii ''style'' @ [34] @ ascii '':''
     @ [34, 20005, 35880, 34] @ ascii ''}]},'' @ [34] @ ascii ''opposition'' @ [34]
     @ ascii '':{'' @ [34] @ ascii ''name'' @ [34] @ ascii '':'' @ [34, 21453, 26041, 34]
     @ ascii '','' @ [34] @ ascii ''members'' @ [34] @ ascii '':[{'' @ [34] @ ascii ''name''
     @ [34] @ ascii '':'' @ [34, 29579, 33459, 34] @ ascii '','' @ [34] @ ascii ''role''
     @ [34] @ ascii '':'' @ [34, 19968, 36777, 34] @ ascii '','' @ [34] @ ascii ''style''
     @ [34] @ ascii '':'' @ [34, 29312, 21033, 34] @ ascii ''}]}}''"

text \<open>
  A configuration with eleven members of the proposition, Ann, Ben and nine more called
  Cy, and no opposition, with its JSON text.
\<close>

definition crowd_member :: "string \<Rightarrow> member_data option" where
  "crowd_member nm = Some \<lparr>m_name = ascii nm, m_role = ascii ''r'', m_style = ascii ''s''\<rparr>"

definition crowd_config :: parsed where
  "crowd_config =
     JSValue
       (Some \<lparr>td_name = None,
              td_members = Some (crowd_member ''Ann'' # crowd_member ''Ben''
                                 # replicate 9 (crowd_member ''Cy''))\<rparr>)
       None"

definition crowd_member_text :: "string \<Rightarrow> jstring" where
  "crowd_member_text nm =
     ascii ''{'' @ [34] @ ascii ''name'' @ [34] @ ascii '':'' @ [34] @ ascii nm @ [34]
     @ ascii '','' @ [34] @ ascii ''role'' @ [34] @ ascii '':'' @ [34] @ ascii ''r'' @ [34]
     @ ascii '','' @ [34] @ ascii ''style'' @ [34] @ ascii '':'' @ [34] @ ascii ''s'' @ [34]
     @ ascii ''}''"

definition crowd_text :: jstring where
  "crowd_text =
     ascii ''{'' @ [34] @ ascii ''proposition'' @ [34] @ ascii '':{'' @ [34] @ ascii ''members''
     @ [34] @ ascii '':['' @ crowd_member_text ''Ann'' @ ascii '','' @ crowd_member_text ''Ben''
     @ concat (replicate 9 (ascii '','' @ crowd_member_text ''Cy'')) @ ascii '']}}''"

text \<open>
  A configuration whose proposition has the member Ann and whose opposition list holds
  \<open>null\<close>, with its JSON text.
\<close>

definition null_entry_config :: parsed where
  "null_entry_config =
     JSValue (Some \<lparr>td_name = None, td_members = Some [crowd_member ''Ann'']\<rparr>)
             (Some \<lparr>td_name = None, td_members = Some [None]\<rparr>)"

definition null_entry_text :: jstring where
  "null_entry_text =
     ascii ''{'' @ [34] @ ascii ''proposition'' @ [34] @ ascii '':{'' @ [34] @ ascii ''members''
     @ [34] @ ascii '':['' @ crowd_member_text ''Ann'' @ ascii '']},'' @ [34]
     @ ascii ''opposition'' @ [34] @ ascii '':{'' @ [34] @ ascii ''members'' @ [34]
     @ ascii '':[null]}}''"

text \<open>\<open>JSON.parse\<close> on the texts of the examples; any other text counts as malformed.\<close>

definition example_parse :: "jstring \<Rightarrow> parsed option" where
  "example_parse t =
     (if t = ascii ''{}'' then Some (JSValue None None)
      else if t = ascii ''null'' then Some JSNull
      else if t = example_text then Some example_config
      else if t = crowd_text then Some crowd_config
      else if t = null_entry_text then Some null_entry_config
      else None)"

text \<open>The session after \<open>initializeTeams\<close> has received the example configuration.\<close>

definition example_session :: DebateSession where
  "example_session =
     snd (initializeTeams example_parse (new_session (ascii ''AI'')) (Inr (Some example_text)))"

text \<open>
  The debater that \<open>initializeTeams\<close> builds at position \<open>i\<close> from an entry whose name
  can be encoded: \<open>avatar\<close> is the URL that \<open>getAvatar\<close> returns for such a name.
\<close>

definition avatar :: "jstring \<Rightarrow> side \<Rightarrow> jstring" where
  "avatar nm sd = (case getAvatar nm sd of Inl e \<Rightarrow> [] | Inr url \<Rightarrow> url)"

definition debater_of :: "side \<Rightarrow> nat \<Rightarrow> member_data \<Rightarrow> Debater" where
  "debater_of sd i m =
     \<lparr>debater_id = id_prefix sd @ digits i, name = m_name m, role = m_role m, side = sd,
      style = m_style m, avatarUrl = avatar (m_name m) sd\<rparr>"

definition example_debater :: "side \<Rightarrow> nat \<Rightarrow> jstring \<Rightarrow> Debater" where
  "example_debater sd i nm =
     debater_of sd i \<lparr>m_name = nm, m_role = [19968, 36777], m_style = [20005, 35880]\<rparr>"

text \<open>
  A session whose opposition has one member, named with the three characters of the
  moderator's name followed by the two of Lao Wang.
\<close>

definition host_session :: DebateSession where
  "host_session =
     \<lparr>topic = ascii ''AI'', chat = Some (Chat (ascii ''AI'')),
      propTeam = Some \<lparr>team_side = Proposition, team_name = [27491, 26041],
                        members = [example_debater Proposition 0 lin_xiaoyu]\<rparr>,
      oppTeam = Some \<lparr>team_side = Opposition, team_name = [21453, 26041],
                       members = [example_debater Opposition 0 (zhuchiren @ [32769, 29579])]\<rparr>\<rparr>"

text \<open>
  A session with three members of the proposition, Bob Li, Alice Wang and Alice Chen, and
  two of the opposition, Alice Zhao and Carol Sun.
\<close>

definition cast_session :: DebateSession where
  "cast_session =
     \<lparr>topic = ascii ''AI'', chat = Some (Chat (ascii ''AI'')),
      propTeam = Some \<lparr>team_side = Proposition, team_name = [27491, 26041],
                        members = [example_debater Proposition 0 (ascii ''Bob Li''),
                                   example_debater Proposition 1 (ascii ''Alice Wang''),
                                   example_debater Proposition 2 (ascii ''Alice Chen'')]\<rparr>,
      oppTeam = Some \<lparr>team_side = Opposition, team_name = [21453, 26041],
                       members = [example_debater Opposition 0 (ascii ''Alice Zhao''),
                                  example_debater Opposition 1 (ascii ''Carol Sun'')]\<rparr>\<rparr>"

text \<open>
  A turn in which the model writes the name of Lin Xiaoyu with the two characters of
  "classmate" appended, and a backend that answers the default prompt with this turn and
  fails on any other message.
\<close>

definition example_turn :: jstring where
  "example_turn =
     ascii ''SPEAKER: '' @ lin_xiaoyu @ [21516, 23398, 10] @ [35874, 35874, 20027, 24109, 12290]"

definition example_backend :: "jstring \<Rightarrow> reply" where
  "example_backend message =
     (if message = default_prompt then Inr (Some example_turn)
      else Inl (Thrown (Some (ascii ''quota exceeded''))))"

text \<open>
  The reading of "segmented, resolved" that section 4.4 of the specification gives, for
  comparison with what \<open>nextTurn\<close> returns: each segment with its speaker replaced by
  the name that the resolver displays for it.
\<close>

definition spec_resolved :: "(jstring \<Rightarrow> jstring) \<Rightarrow> DebateSession \<Rightarrow> TurnSegment \<Rightarrow> TurnSegment" where
  "spec_resolved lc s segment =
     (case speakerName (fst (attribute lc s segment)) of
        None \<Rightarrow> segment
      | Some n \<Rightarrow> segment\<lparr>speaker := n\<rparr>)"

section \<open>Strings: split, join and tags\<close>

lemma split_nl_not_Nil: "split_nl s \<noteq> []"
  by (induction s) (auto split: list.splits)

lemma join_nl_Cons: "ls \<noteq> [] \<Longrightarrow> join_nl (l # ls) = l @ 10 # join_nl ls"
  by (cases ls) auto

lemma join_nl_Cons_hd: "ls \<noteq> [] \<Longrightarrow> join_nl ((c # hd ls) # tl ls) = c # join_nl ls"
  by (cases ls; cases "tl ls") auto

lemma join_split_nl: "join_nl (split_nl s) = s"
proof (induction s)
  case Nil
  show ?case by simp
next
  case (Cons c s)
  obtain l ls where sp: "split_nl s = l # ls"
    using split_nl_not_Nil [of s] by (cases "split_nl s") auto
  show ?case
  proof (cases "c = 10")
    case True
    then show ?thesis using Cons split_nl_not_Nil [of s] by (simp add: join_nl_Cons)
  next
    case False
    have "join_nl ((c # l) # ls) = c # join_nl (l # ls)"
      using join_nl_Cons_hd [of "l # ls" c] by simp
    then show ?thesis using False Cons sp by simp
  qed
qed

lemma match_literal_i_eq:
  "match_literal_i p s =
     (if length p \<le> length s \<and> map canonicalize (take (length p) s) = map canonicalize p
      then Some (drop (length p) s) else None)"
  by (induction p s rule: match_literal_i.induct) auto

lemma canonicalize_tags:
  "map canonicalize MODERATOR_tag = MODERATOR_tag" "map canonicalize SPEAKER_tag = SPEAKER_tag"
  by (simp_all add: MODERATOR_tag_def SPEAKER_tag_def ascii_def canonicalize_def)

lemma match_literal_i_prefix:
  "map canonicalize tag = tag \<Longrightarrow>
   match_literal_i tag line \<noteq> None \<longleftrightarrow> (\<exists>p rest. line = p @ rest \<and> map canonicalize p = tag)"
proof
  assume t: "map canonicalize tag = tag" and m: "match_literal_i tag line \<noteq> None"
  then have "length tag \<le> length line" "map canonicalize (take (length tag) line) = tag"
    by (auto simp: match_literal_i_eq split: if_splits)
  then have "line = take (length tag) line @ drop (length tag) line \<and> map canonicalize (take (length tag) line) = tag"
    by simp
  then show "\<exists>p rest. line = p @ rest \<and> map canonicalize p = tag" by blast
next
  assume t: "map canonicalize tag = tag" and "\<exists>p rest. line = p @ rest \<and> map canonicalize p = tag"
  then obtain p rest where l: "line = p @ rest" and p: "map canonicalize p = tag" by blast
  from p have "length p = length tag" by (metis length_map)
  then show "match_literal_i tag line \<noteq> None"
    using l p t by (simp add: match_literal_i_eq)
qed

lemma match_literal_i_append:
  "map canonicalize tag = tag \<Longrightarrow> map canonicalize p = tag \<Longrightarrow> match_literal_i tag (p @ rest) = Some rest"
proof -
  assume t: "map canonicalize tag = tag" and p: "map canonicalize p = tag"
  from p have "length p = length tag" by (metis length_map)
  then show ?thesis using p t by (simp add: match_literal_i_eq)
qed

lemma match_tag_None: "match_tag tag line \<noteq> None \<longleftrightarrow> match_literal_i tag line \<noteq> None"
  by (simp add: match_tag_def split: option.splits)

lemma modMatch_iff: "modMatch line \<noteq> None \<longleftrightarrow> (\<exists>p rest. line = p @ rest \<and> map canonicalize p = MODERATOR_tag)"
  unfolding modMatch_def match_tag_None
  by (rule match_literal_i_prefix [OF canonicalize_tags(1)])

lemma spkMatch_iff: "spkMatch line \<noteq> None \<longleftrightarrow> (\<exists>p rest. line = p @ rest \<and> map canonicalize p = SPEAKER_tag)"
  unfolding spkMatch_def match_tag_None
  by (rule match_literal_i_prefix [OF canonicalize_tags(2)])

lemma modMatch_append:
  "map canonicalize p = MODERATOR_tag \<Longrightarrow>
   modMatch (p @ rest) = Some (takeWhile (\<lambda>c. \<not> is_line_terminator c) (dropWhile is_ws rest))"
  by (simp add: modMatch_def match_tag_def match_literal_i_append canonicalize_tags)

lemma is_ws_plain: "is_ws c \<Longrightarrow> canonicalize c = c \<and> c \<noteq> 77 \<and> c \<noteq> 83"
  unfolding is_ws_def canonicalize_def by auto

lemma tag_heads: "MODERATOR_tag = 77 # tl MODERATOR_tag" "SPEAKER_tag = 83 # tl SPEAKER_tag"
  by (simp_all add: MODERATOR_tag_def SPEAKER_tag_def ascii_def)

lemma canonicalize_caps: "canonicalize 77 = 77" "canonicalize 83 = 83"
  by (simp_all add: canonicalize_def)

lemma leading_ws_no_match:
  assumes "is_ws c"
  shows "modMatch (c # line) = None" "spkMatch (c # line) = None"
proof -
  have "match_literal_i (77 # tl MODERATOR_tag) (c # line) = None"
    using is_ws_plain [OF assms] by (simp add: canonicalize_caps)
  then show "modMatch (c # line) = None"
    using tag_heads(1) by (simp add: modMatch_def match_tag_def)
  have "match_literal_i (83 # tl SPEAKER_tag) (c # line) = None"
    using is_ws_plain [OF assms] by (simp add: canonicalize_caps)
  then show "spkMatch (c # line) = None"
    using tag_heads(2) by (simp add: spkMatch_def match_tag_def)
qed

lemma leading_ws_not_tag: "is_ws c \<Longrightarrow> \<not> is_tag_line (c # line)"
  by (simp add: is_tag_line_def leading_ws_no_match)

lemma canonicalize_colon: "canonicalize c = 58 \<Longrightarrow> c = 58"
  by (simp add: canonicalize_def split: if_splits)

lemma tag_lengths: "length MODERATOR_tag = 10" "MODERATOR_tag ! 9 = 58"
  "length SPEAKER_tag = 8" "SPEAKER_tag ! 7 = 58"
  by (simp_all add: MODERATOR_tag_def SPEAKER_tag_def ascii_def)

lemma prefix_colon:
  assumes "line = p @ rest" "map canonicalize p = tag" "i < length tag" "tag ! i = 58"
  shows "i < length line \<and> line ! i = 58"
proof -
  have len: "length p = length tag" using assms(2) by (metis length_map)
  have "canonicalize (p ! i) = tag ! i"
    using assms(2,3) len by (metis nth_map)
  then have "p ! i = 58" using assms(4) canonicalize_colon by simp
  then show ?thesis using assms(1,3) len by (simp add: nth_append)
qed

lemma modMatch_colon: "modMatch line \<noteq> None \<Longrightarrow> 9 < length line \<and> line ! 9 = 58"
  using prefix_colon [of line _ _ MODERATOR_tag 9] tag_lengths(1,2) modMatch_iff [of line]
  by auto

lemma spkMatch_colon: "spkMatch line \<noteq> None \<Longrightarrow> 7 < length line \<and> line ! 7 = 58"
  using prefix_colon [of line _ _ SPEAKER_tag 7] tag_lengths(3,4) spkMatch_iff [of line]
  by auto

lemma missing_colon_not_tag:
  assumes "length line \<le> 9 \<or> line ! 9 \<noteq> 58" and "length line \<le> 7 \<or> line ! 7 \<noteq> 58"
  shows "\<not> is_tag_line line"
proof -
  have "modMatch line = None"
  proof (rule ccontr)
    assume "modMatch line \<noteq> None"
    from modMatch_colon [OF this] assms(1) show False by auto
  qed
  moreover have "spkMatch line = None"
  proof (rule ccontr)
    assume "spkMatch line \<noteq> None"
    from spkMatch_colon [OF this] assms(2) show False by auto
  qed
  ultimately show ?thesis by (simp add: is_tag_line_def)
qed

lemma flush_content [simp]: "currentContent (flush st) = []"
  by (simp add: flush_def)

lemma step_plain: "\<not> is_tag_line line \<Longrightarrow> step st line = st\<lparr>currentContent := currentContent st @ [line]\<rparr>"
  by (simp add: step_def is_tag_line_def)

lemma step_moderator_inline:
  assumes "map canonicalize p = MODERATOR_tag"
    and "trim (takeWhile (\<lambda>c. \<not> is_line_terminator c) (dropWhile is_ws rest)) \<noteq> []"
  shows "step st (p @ rest) =
     (flush st)\<lparr>currentSpeaker := zhuchiren, currentType := moderator,
        currentContent := [trim (takeWhile (\<lambda>c. \<not> is_line_terminator c) (dropWhile is_ws rest))]\<rparr>"
  using assms(2) by (simp add: step_def modMatch_append [OF assms(1)] Let_def)

lemma trim_dropWhile: "trim (dropWhile is_ws s) = trim s"
  by (simp add: trim_def dropWhile_idem)

lemma inline_no_terminator:
  assumes "\<forall>c\<in>set rest. \<not> is_line_terminator c"
  shows "trim (takeWhile (\<lambda>c. \<not> is_line_terminator c) (dropWhile is_ws rest)) = trim rest"
proof -
  have "\<forall>c\<in>set (dropWhile is_ws rest). \<not> is_line_terminator c"
    using assms set_dropWhileD by fastforce
  then have tw: "takeWhile (\<lambda>c. \<not> is_line_terminator c) (dropWhile is_ws rest) = dropWhile is_ws rest"
    by (simp add: takeWhile_eq_all_conv)
  show ?thesis by (subst tw) (rule trim_dropWhile)
qed

lemma dropWhile_all_ws: "(\<forall>c\<in>set (dropWhile is_ws s). is_ws c) \<longleftrightarrow> dropWhile is_ws s = []"
proof
  assume a: "\<forall>c\<in>set (dropWhile is_ws s). is_ws c"
  show "dropWhile is_ws s = []"
  proof (rule ccontr)
    assume ne: "dropWhile is_ws s \<noteq> []"
    then have "\<not> is_ws (hd (dropWhile is_ws s))" by (rule hd_dropWhile)
    moreover have "hd (dropWhile is_ws s) \<in> set (dropWhile is_ws s)" using ne by (rule hd_in_set)
    ultimately show False using a by blast
  qed
next
  assume "dropWhile is_ws s = []"
  then show "\<forall>c\<in>set (dropWhile is_ws s). is_ws c" by (auto dest: set_dropWhileD)
qed

lemma trim_Nil_iff: "trim s = [] \<longleftrightarrow> (\<forall>c\<in>set s. is_ws c)"
proof -
  have "trim s = [] \<longleftrightarrow> (\<forall>c\<in>set (dropWhile is_ws s). is_ws c)"
    by (simp add: trim_def)
  also have "\<dots> \<longleftrightarrow> dropWhile is_ws s = []"
    by (rule dropWhile_all_ws)
  also have "\<dots> \<longleftrightarrow> (\<forall>c\<in>set s. is_ws c)"
    by simp
  finally show ?thesis .
qed

section \<open>The segmenter\<close>

lemmas segmenter_defs = segmenter_def segment_lines_def step_def flush_def init_state_def
  modMatch_def spkMatch_def match_tag_def MODERATOR_tag_def SPEAKER_tag_def canonicalize_def
  is_ws_def is_line_terminator_def trim_def ascii_def zhuchiren_def is_tag_line_def

lemma foldl_step_plain:
  "\<forall>l\<in>set lines. \<not> is_tag_line l \<Longrightarrow>
   foldl step st lines = st\<lparr>currentContent := currentContent st @ lines\<rparr>"
  by (induction lines arbitrary: st) (simp_all add: step_plain)

lemma flush_fields [simp]:
  "currentSpeaker (flush st) = currentSpeaker st" "currentType (flush st) = currentType st"
  by (simp_all add: flush_def)

lemma flush_segments:
  "segments (flush st) = segments st @ map block_segment
       (filter (\<lambda>b. block_lines b \<noteq> []) [(currentSpeaker st, currentType st, currentContent st)])"
  by (simp add: flush_def block_lines_def block_segment_def)

lemma segments_blocks:
  "segments (flush (foldl step st lines))
   = segments st @ map block_segment
       (filter (\<lambda>b. block_lines b \<noteq> [])
          (blocks (currentSpeaker st, currentType st, currentContent st) lines))"
proof (induction lines arbitrary: st)
  case Nil
  show ?case by (simp add: flush_segments)
next
  case (Cons line rest)
  show ?case
  proof (cases "modMatch line")
    case (Some m1)
    then show ?thesis
      using Cons [of "step st line"]
      by (simp add: step_def flush_segments Let_def)
  next
    case None
    note no_mod = None
    show ?thesis
    proof (cases "spkMatch line")
      case (Some s1)
      then show ?thesis
        using no_mod Cons [of "step st line"]
        by (simp add: step_def flush_segments)
    next
      case None
      then show ?thesis
        using no_mod Cons [of "step st line"]
        by (simp add: step_def)
    qed
  qed
qed

text \<open>
  C6. A text none of whose lines is a tag line, the empty text among them, gives exactly
  one segment: its speaker is the moderator, its type is \<open>moderator\<close> and its content is
  the whole text, trimmed.
\<close>

theorem untagged_text_single_segment:
  assumes "\<forall>l\<in>set (split_nl input). \<not> is_tag_line l"
  shows "segmenter input = [\<lparr>speaker = zhuchiren, content = trim input, type = moderator\<rparr>]"
proof -
  have "foldl step init_state (split_nl input)
        = init_state\<lparr>currentContent := currentContent init_state @ split_nl input\<rparr>"
    using assms by (rule foldl_step_plain)
  then have "segment_lines (split_nl input)
        = [\<lparr>speaker = zhuchiren, content = trim (join_nl (split_nl input)), type = moderator\<rparr>]"
    using split_nl_not_Nil [of input]
    by (simp add: segment_lines_def flush_def init_state_def)
  then show ?thesis
    by (simp add: segmenter_def join_split_nl)
qed

theorem untagged_text_single_segment_witness:
  "list_all (\<lambda>l. \<not> is_tag_line l) (split_nl (ascii ''Sorry,'' @ [10] @ ascii ''no debate today.  ''))
   \<and> segmenter (ascii ''Sorry,'' @ [10] @ ascii ''no debate today.  '')
       = [\<lparr>speaker = zhuchiren, content = ascii ''Sorry,'' @ [10] @ ascii ''no debate today.'',
           type = moderator\<rparr>]
   \<and> list_all (\<lambda>l. \<not> is_tag_line l) (split_nl [])
   \<and> segmenter [] = [\<lparr>speaker = zhuchiren, content = [], type = moderator\<rparr>]"
proof -
  have h1: "\<forall>l\<in>set (split_nl (ascii ''Sorry,'' @ [10] @ ascii ''no debate today.  '')). \<not> is_tag_line l"
    by (simp add: segmenter_defs)
  have h2: "\<forall>l\<in>set (split_nl []). \<not> is_tag_line l"
    by (simp add: segmenter_defs)
  show ?thesis
    using h1 h2 untagged_text_single_segment [OF h1] untagged_text_single_segment [OF h2]
    by (simp add: trim_def ascii_def is_ws_def list_all_iff)
qed

text \<open>
  C4, as the claim states it, fails: a block whose only line is blank is emitted, and its
  content is empty. Here the text is \<open>SPEAKER: A\<close>, an empty line and \<open>MODERATOR: b\<close>.
\<close>

theorem blank_block_emitted_counterexample:
  "segmenter (ascii ''SPEAKER: A'' @ [10, 10] @ ascii ''MODERATOR: b'')
   = [\<lparr>speaker = ascii ''A'', content = [], type = debater\<rparr>,
      \<lparr>speaker = zhuchiren, content = ascii ''b'', type = moderator\<rparr>]"
  by (simp add: segmenter_defs)

text \<open>
  C4, amended. The loop emits one segment for each block that gathered at least one line,
  in the order of the blocks, and none for a block that gathered no line (a tag line
  followed at once by a tag line or by the end of the input, a \<open>MODERATOR:\<close> line
  without inline text among them). The content of a segment is the trimmed join of the
  lines of its block; it is empty exactly when these lines hold nothing but white space.
\<close>

theorem segment_lines_blocks:
  "segment_lines lines
     = map block_segment (filter (\<lambda>b. block_lines b \<noteq> []) (blocks (zhuchiren, moderator, []) lines))
   \<and> (content (block_segment b) = [] \<longleftrightarrow> (\<forall>c\<in>set (join_nl (block_lines b)). is_ws c))"
  by (simp add: segment_lines_def segments_blocks init_state_def block_segment_def trim_Nil_iff)

theorem segment_lines_blocks_witness:
  "segment_lines [ascii ''SPEAKER: A'', ascii ''speaker: B'', [32], ascii ''MODERATOR:'']
     = [\<lparr>speaker = ascii ''B'', content = [], type = debater\<rparr>]
   \<and> blocks (zhuchiren, moderator, []) [ascii ''SPEAKER: A'', ascii ''speaker: B'', [32], ascii ''MODERATOR:'']
     = [(zhuchiren, moderator, []), (ascii ''A'', debater, []), (ascii ''B'', debater, [[32]]),
        (zhuchiren, moderator, [])]
   \<and> content (block_segment (ascii ''B'', debater, [[32]])) = []
   \<and> list_all is_ws (join_nl (block_lines (ascii ''B'', debater, [[32]])))"
  using segment_lines_blocks [of "[ascii ''SPEAKER: A'', ascii ''speaker: B'', [32], ascii ''MODERATOR:'']"
      "(ascii ''B'', debater, [[32]])"]
  by (simp add: segmenter_defs block_lines_def block_segment_def)

text \<open>
  C7. A line is a tag line exactly when it starts with the ten code units of
  \<open>MODERATOR:\<close> or the eight of \<open>SPEAKER:\<close>, compared without regard to case. Any
  other line, one that starts with white space or one without the colon among them, is
  added as it is to the lines of the current block, and speaker and type stay. After a
  \<open>MODERATOR:\<close> line with inline text the current block is the moderator's and holds
  the inline text as its only line: the text after the tag up to the first line
  terminator, trimmed, which is the trimmed rest of the line when no \<open>CR\<close>, \<open>LS\<close> or
  \<open>PS\<close> occurs in it.
\<close>

theorem tag_line_grammar:
  "(modMatch l1 \<noteq> None \<longleftrightarrow> (\<exists>p r. l1 = p @ r \<and> map canonicalize p = MODERATOR_tag))
   \<and> (spkMatch l1 \<noteq> None \<longleftrightarrow> (\<exists>p r. l1 = p @ r \<and> map canonicalize p = SPEAKER_tag))
   \<and> (\<not> is_tag_line l2 \<longrightarrow> step st l2 = st\<lparr>currentContent := currentContent st @ [l2]\<rparr>)
   \<and> (is_ws c \<longrightarrow> \<not> is_tag_line (c # l3))
   \<and> ((length l4 \<le> 9 \<or> l4 ! 9 \<noteq> 58) \<and> (length l4 \<le> 7 \<or> l4 ! 7 \<noteq> 58) \<longrightarrow> \<not> is_tag_line l4)
   \<and> (map canonicalize p = MODERATOR_tag
        \<and> trim (takeWhile (\<lambda>c. \<not> is_line_terminator c) (dropWhile is_ws rest)) \<noteq> [] \<longrightarrow>
      step st (p @ rest) =
        (flush st)\<lparr>currentSpeaker := zhuchiren, currentType := moderator,
           currentContent := [trim (takeWhile (\<lambda>c. \<not> is_line_terminator c) (dropWhile is_ws rest))]\<rparr>)
   \<and> ((\<forall>c\<in>set rest. \<not> is_line_terminator c) \<longrightarrow>
        trim (takeWhile (\<lambda>c. \<not> is_line_terminator c) (dropWhile is_ws rest)) = trim rest)"
  using modMatch_iff [of l1] spkMatch_iff [of l1] step_plain [of l2 st] leading_ws_not_tag [of c l3]
    missing_colon_not_tag [of l4] step_moderator_inline [of p rest st] inline_no_terminator [of rest]
  by blast

theorem tag_line_grammar_witness:
  "\<not> is_tag_line (ascii ''MODERATOR hello'')
   \<and> step init_state (ascii ''MODERATOR hello'')
       = init_state\<lparr>currentContent := [ascii ''MODERATOR hello'']\<rparr>
   \<and> is_ws 32 \<and> \<not> is_tag_line (32 # ascii ''SPEAKER: A'')
   \<and> map canonicalize (ascii ''Moderator:'') = MODERATOR_tag
   \<and> modMatch (ascii ''Moderator:'' @ ascii ''  welcome '') \<noteq> None
   \<and> step init_state (ascii ''Moderator:'' @ ascii ''  welcome '')
       = init_state\<lparr>currentContent := [ascii ''welcome'']\<rparr>
   \<and> list_all (\<lambda>c. \<not> is_line_terminator c) (ascii ''  welcome '')
   \<and> trim (ascii ''  welcome '') = ascii ''welcome''"
proof -
  have h1: "\<not> is_tag_line (ascii ''MODERATOR hello'')"
    by (simp add: segmenter_defs)
  have h2: "is_ws 32"
    by (simp add: is_ws_def)
  have h3: "(length (ascii ''MODERATOR hello'') \<le> 9 \<or> ascii ''MODERATOR hello'' ! 9 \<noteq> 58)
            \<and> (length (ascii ''MODERATOR hello'') \<le> 7 \<or> ascii ''MODERATOR hello'' ! 7 \<noteq> 58)"
    by (simp add: ascii_def)
  have h4: "map canonicalize (ascii ''Moderator:'') = MODERATOR_tag
            \<and> trim (takeWhile (\<lambda>c. \<not> is_line_terminator c) (dropWhile is_ws (ascii ''  welcome ''))) \<noteq> []"
    by (simp add: segmenter_defs)
  have h5: "\<forall>c\<in>set (ascii ''  welcome ''). \<not> is_line_terminator c"
    by (simp add: ascii_def is_line_terminator_def)
  show ?thesis
    using h1 h2 h3 h4 h5
      tag_line_grammar [of "ascii ''Moderator:'' @ ascii ''  welcome ''" "ascii ''MODERATOR hello''"
        init_state 32 "ascii ''SPEAKER: A''" "ascii ''MODERATOR hello''" "ascii ''Moderator:''"
        "ascii ''  welcome ''"]
    by (simp add: segmenter_defs)
qed

section \<open>Team initialization\<close>

lemma digits0: "digits 0 = [48]"
  by (simp add: digits.simps)








lemmas enc_defs = uri_unreserved_def utf8_def hex_digit_def percent_def side_str_def

lemma getAvatar_avatar: "getAvatar nm sd = Inr url \<Longrightarrow> avatar nm sd = url"
  by (simp add: avatar_def)

lemma usable_getAvatar:
  "usable_entry sd (Some m) \<Longrightarrow> getAvatar (m_name m) sd = Inr (avatar (m_name m) sd)"
  by (auto simp: usable_entry_def getAvatar_def avatar_def Let_def split: option.splits)

lemma make_debater_usable:
  "usable_entry sd e \<Longrightarrow> make_debater sd (i, e) = Inr (debater_of sd i (the e))"
  by (cases e) (simp_all add: usable_entry_def make_debater_def debater_of_def usable_getAvatar)

lemma map_members_usable:
  "list_all (usable_entry sd) es \<Longrightarrow>
   map_members (make_debater sd) (enumerate n es)
     = Inr (map (\<lambda>ie. debater_of sd (fst ie) (the (snd ie))) (enumerate n es))"
  by (induction es arbitrary: n) (simp_all add: make_debater_usable)

lemma placeholder_avatar:
  "getAvatar (m_name (placeholder Proposition)) Proposition
     = Inr (ascii ''https://api.dicebear.com/9.x/micah/png?seed=%E6%AD%A3%E6%96%B9%E8%BE%A9%E6%89%8B%201-proposition&backgroundColor=ecfccb&backgroundType=gradientLinear&radius=50'')"
  "getAvatar (m_name (placeholder Opposition)) Opposition
     = Inr (ascii ''https://api.dicebear.com/9.x/micah/png?seed=%E5%8F%8D%E6%96%B9%E8%BE%A9%E6%89%8B%201-opposition&backgroundColor=ffe4e6&backgroundType=gradientLinear&radius=50'')"
  by (simp_all add: getAvatar_def placeholder_def enc_defs ascii_def)

lemma placeholder_usable: "usable_entry sd (Some (placeholder sd))"
  using placeholder_avatar
  by (cases sd) (auto simp: usable_entry_def getAvatar_def split: option.splits)


lemma placeholder_debater:
  "debater_of Proposition 0 (placeholder Proposition) = \<lparr>debater_id = ascii ''prop-0'', name = [27491, 26041, 36777, 25163, 32, 49],
            role = [36777, 25163], side = Proposition, style = [26631, 20934],
            avatarUrl = ascii ''https://api.dicebear.com/9.x/micah/png?seed=%E6%AD%A3%E6%96%B9%E8%BE%A9%E6%89%8B%201-proposition&backgroundColor=ecfccb&backgroundType=gradientLinear&radius=50''\<rparr>"
  "debater_of Opposition 0 (placeholder Opposition) = \<lparr>debater_id = ascii ''opp-0'', name = [21453, 26041, 36777, 25163, 32, 49],
            role = [36777, 25163], side = Opposition, style = [26631, 20934],
            avatarUrl = ascii ''https://api.dicebear.com/9.x/micah/png?seed=%E5%8F%8D%E6%96%B9%E8%BE%A9%E6%89%8B%201-opposition&backgroundColor=ffe4e6&backgroundType=gradientLinear&radius=50''\<rparr>"
  using placeholder_avatar
  by (simp_all add: debater_of_def avatar_def id_prefix_def digits0)
    (simp_all add: placeholder_def ascii_def)

lemma member_list_eq:
  "member_list sd (team_data_or_empty d)
     = (if parsed_members d = [] then [Some (placeholder sd)] else parsed_members d)"
  by (simp add: member_list_def team_data_or_empty_def parsed_members_def split: option.splits)

lemma td_name_or_empty: "td_name (team_data_or_empty d) = parsed_name d"
  by (simp add: team_data_or_empty_def parsed_name_def split: option.splits)

lemma member_list_usable:
  "list_all (usable_entry sd) (parsed_members d) \<Longrightarrow>
   list_all (usable_entry sd) (member_list sd (team_data_or_empty d))"
  by (simp add: member_list_eq placeholder_usable)

lemma make_team_usable:
  assumes "list_all (usable_entry sd) (parsed_members d)"
  shows "make_team sd (team_data_or_empty d) =
     Inr \<lparr>team_side = sd,
          team_name = (case parsed_name d of None \<Rightarrow> default_team_name sd
                       | Some n \<Rightarrow> if n = [] then default_team_name sd else n),
          members = map (\<lambda>ie. debater_of sd (fst ie) (the (snd ie)))
                      (enumerate 0 (if parsed_members d = [] then [Some (placeholder sd)]
                                    else parsed_members d))\<rparr>"
  using map_members_usable [OF member_list_usable [OF assms], of 0]
  by (simp add: make_team_def td_name_or_empty member_list_eq)

lemma names_usable:
  "list_all (usable_entry sd) es \<Longrightarrow>
   map (\<lambda>x. Some (name x)) (map (\<lambda>ie. debater_of sd (fst ie) (the (snd ie))) (enumerate n es))
     = map (map_option m_name) es"
  by (induction es arbitrary: n)
    (auto simp: debater_of_def usable_entry_def split: option.splits)

lemma make_team_members:
  assumes "list_all (usable_entry sd) (parsed_members d)"
    and "make_team sd (team_data_or_empty d) = Inr t"
  shows "length (members t) = (if parsed_members d = [] then 1 else length (parsed_members d))"
    and "parsed_members d = [] \<Longrightarrow> members t = [debater_of sd 0 (placeholder sd)]"
    and "parsed_members d \<noteq> [] \<Longrightarrow>
           map (\<lambda>x. Some (name x)) (members t) = map (map_option m_name) (parsed_members d)"
    and "\<forall>i<length (members t). debater_id (members t ! i) = id_prefix sd @ digits i"
    and "team_name t = (case parsed_name d of None \<Rightarrow> default_team_name sd
                        | Some n \<Rightarrow> if n = [] then default_team_name sd else n)"
proof -
  let ?es = "if parsed_members d = [] then [Some (placeholder sd)] else parsed_members d"
  have t: "t = \<lparr>team_side = sd,
          team_name = (case parsed_name d of None \<Rightarrow> default_team_name sd
                       | Some n \<Rightarrow> if n = [] then default_team_name sd else n),
          members = map (\<lambda>ie. debater_of sd (fst ie) (the (snd ie))) (enumerate 0 ?es)\<rparr>"
    using make_team_usable [OF assms(1)] assms(2) by simp
  show "length (members t) = (if parsed_members d = [] then 1 else length (parsed_members d))"
    by (simp add: t)
  show "parsed_members d = [] \<Longrightarrow> members t = [debater_of sd 0 (placeholder sd)]"
    by (simp add: t)
  show "parsed_members d \<noteq> [] \<Longrightarrow>
           map (\<lambda>x. Some (name x)) (members t) = map (map_option m_name) (parsed_members d)"
    using names_usable [OF assms(1), of 0] by (simp add: t)
  show "\<forall>i<length (members t). debater_id (members t ! i) = id_prefix sd @ digits i"
    by (simp add: t nth_enumerate_eq debater_of_def)
  show "team_name t = (case parsed_name d of None \<Rightarrow> default_team_name sd
                        | Some n \<Rightarrow> if n = [] then default_team_name sd else n)"
    by (simp add: t)
qed

lemma initializeTeams_usable:
  assumes "t \<noteq> []" and "JSON_parse t = Some (JSValue p q)"
    and "list_all (usable_entry Proposition) (parsed_members p)"
    and "list_all (usable_entry Opposition) (parsed_members q)"
  shows "\<exists>pt ot. make_team Proposition (team_data_or_empty p) = Inr pt
           \<and> make_team Opposition (team_data_or_empty q) = Inr ot
           \<and> initializeTeams JSON_parse s (Inr (Some t))
               = (Inr (pt, ot),
                  s\<lparr>chat := Some (Chat (topic s)), propTeam := Some pt, oppTeam := Some ot\<rparr>)"
  using assms(1,2) make_team_usable [OF assms(3)] make_team_usable [OF assms(4)]
  by (simp add: initializeTeams_def)



lemma null_entry_text_parse:
  "null_entry_text \<noteq> []" "example_parse null_entry_text = Some null_entry_config"
  by (simp_all add: example_parse_def null_entry_text_def crowd_text_def crowd_member_text_def
      example_text_def ascii_def)

lemma crowd_usable:
  "usable_entry Proposition (crowd_member ''Ann'')"
  "usable_entry Proposition (crowd_member ''Ben'')"
  "usable_entry Proposition (crowd_member ''Cy'')"
  by (simp_all add: usable_entry_def crowd_member_def enc_defs ascii_def)




lemma example_parse_empty_object: "example_parse (ascii ''{}'') = Some (JSValue None None)"
  by (simp add: example_parse_def)

lemma braces_not_empty: "ascii ''{}'' \<noteq> []"
  by (simp add: ascii_def)

lemma parsed_members_None: "parsed_members None = []" "parsed_name None = None"
  by (simp_all add: parsed_members_def parsed_name_def)



lemma initializeTeams_no_text:
  "r = Inr None \<or> r = Inr (Some []) \<Longrightarrow>
   initializeTeams JSON_parse s r
     = (Inl (Error (ascii ''No response from AI'')), s\<lparr>chat := Some (Chat (topic s))\<rparr>)"
  by (auto simp: initializeTeams_def)

lemma initializeTeams_syntax_error:
  "JSON_parse t = None \<Longrightarrow> t \<noteq> [] \<Longrightarrow>
   initializeTeams JSON_parse s (Inr (Some t))
     = (Inl (Error (ascii ''Failed to parse debate teams configuration.'')),
        s\<lparr>chat := Some (Chat (topic s))\<rparr>)"
  by (simp add: initializeTeams_def)

text \<open>
  The other ways in which \<open>initializeTeams\<close> throws: the rejection of the backend is
  passed on, \<open>null\<close> as the parsed value and \<open>null\<close> as a member entry raise a TypeError,
  and a name with a lone surrogate raises a URIError. When the entry is in the list of the
  opposition, the proposition team has been assigned already.
\<close>

lemma initializeTeams_rejected:
  "initializeTeams JSON_parse s (Inl e) = (Inl (Rejected e), s\<lparr>chat := Some (Chat (topic s))\<rparr>)"
  by (simp add: initializeTeams_def)

lemma initializeTeams_null:
  "JSON_parse t = Some JSNull \<Longrightarrow> t \<noteq> [] \<Longrightarrow>
   initializeTeams JSON_parse s (Inr (Some t)) = (Inl TypeError, s\<lparr>chat := Some (Chat (topic s))\<rparr>)"
  by (simp add: initializeTeams_def)

lemma getAvatar_lone_surrogate: "getAvatar [55357] Proposition = Inl URIError"
  by (simp add: getAvatar_def enc_defs ascii_def)

lemma initializeTeams_null_entry:
  "fst (initializeTeams example_parse (new_session (ascii ''AI'')) (Inr (Some null_entry_text))) = Inl TypeError"
  "map name (roster (propTeam (snd (initializeTeams example_parse (new_session (ascii ''AI'')) (Inr (Some null_entry_text)))))) = [ascii ''Ann'']"
  "oppTeam (snd (initializeTeams example_parse (new_session (ascii ''AI'')) (Inr (Some null_entry_text)))) = None"
proof -
  have u: "list_all (usable_entry Proposition)
             (parsed_members (Some \<lparr>td_name = None, td_members = Some [crowd_member ''Ann'']\<rparr>))"
    by (simp add: parsed_members_def crowd_usable)
  have o: "make_team Opposition (team_data_or_empty (Some \<lparr>td_name = None, td_members = Some [None]\<rparr>))
             = Inl TypeError"
    by (simp add: make_team_def member_list_def team_data_or_empty_def make_debater_def)
  have r: "initializeTeams example_parse (new_session (ascii ''AI'')) (Inr (Some null_entry_text))
     = (case make_team Proposition (team_data_or_empty (Some \<lparr>td_name = None, td_members = Some [crowd_member ''Ann'']\<rparr>)) of
          Inr pt \<Rightarrow> (Inl TypeError,
             (new_session (ascii ''AI''))\<lparr>chat := Some (Chat (topic (new_session (ascii ''AI'')))),
                                           propTeam := Some pt\<rparr>))"
    using make_team_usable [OF u] o
    by (simp add: initializeTeams_def null_entry_text_parse null_entry_config_def)
  show "fst (initializeTeams example_parse (new_session (ascii ''AI'')) (Inr (Some null_entry_text))) = Inl TypeError"
    by (simp add: r make_team_usable [OF u])
  show "map name (roster (propTeam (snd (initializeTeams example_parse (new_session (ascii ''AI'')) (Inr (Some null_entry_text)))))) = [ascii ''Ann'']"
    by (simp add: r make_team_usable [OF u] roster_def)
      (simp add: parsed_members_def debater_of_def crowd_member_def)
  show "oppTeam (snd (initializeTeams example_parse (new_session (ascii ''AI'')) (Inr (Some null_entry_text)))) = None"
    by (simp add: r make_team_usable [OF u]) (simp add: new_session_def)
qed

text \<open>
  C3, as the claim states it, fails: the text \<open>{}\<close> parses to an object that has
  neither team, and \<open>initializeTeams\<close> returns two teams of one placeholder each and
  stores them in the session.
\<close>

theorem empty_object_accepted_counterexample:
  "example_parse (ascii ''{}'') = Some (JSValue None None)
   \<and> \<not> isl (fst (initializeTeams example_parse (new_session (ascii ''AI'')) (Inr (Some (ascii ''{}'')))))
   \<and> map name (roster (propTeam (snd (initializeTeams example_parse (new_session (ascii ''AI'')) (Inr (Some (ascii ''{}''))))))) = [[27491, 26041, 36777, 25163, 32, 49]]
   \<and> map name (roster (oppTeam (snd (initializeTeams example_parse (new_session (ascii ''AI'')) (Inr (Some (ascii ''{}''))))))) = [[21453, 26041, 36777, 25163, 32, 49]]"
  using make_team_usable [of Proposition None] make_team_usable [of Opposition None]
  by (simp add: example_parse_empty_object braces_not_empty initializeTeams_def parsed_members_None
      roster_def debater_of_def placeholder_def)

text \<open>
  C3, amended. \<open>initializeTeams\<close> throws an \<open>Error\<close> with the message "No response
  from AI" when the response has no text or an empty one, and an \<open>Error\<close> with the
  message "Failed to parse debate teams configuration." when \<open>JSON.parse\<close> raises on the
  text; in both cases the teams of the session are as they were before the call. A text
  that parses to a value other than \<open>null\<close> is not rejected for a team, a team name or a
  member list that is missing: when the entries of the lists that are there are objects
  with names that can be encoded, both teams are returned and stored, a missing or empty
  team name is replaced by the default name of the side, and a missing or empty member
  list by the one placeholder of the side.
\<close>

theorem initializeTeams_failures:
  "((r = Inr None \<or> r = Inr (Some [])) \<longrightarrow>
      initializeTeams JSON_parse s r
        = (Inl (Error (ascii ''No response from AI'')), s\<lparr>chat := Some (Chat (topic s))\<rparr>)
      \<and> propTeam (snd (initializeTeams JSON_parse s r)) = propTeam s
      \<and> oppTeam (snd (initializeTeams JSON_parse s r)) = oppTeam s)
   \<and> (JSON_parse t = None \<and> t \<noteq> [] \<longrightarrow>
      initializeTeams JSON_parse s (Inr (Some t))
        = (Inl (Error (ascii ''Failed to parse debate teams configuration.'')),
           s\<lparr>chat := Some (Chat (topic s))\<rparr>)
      \<and> propTeam (snd (initializeTeams JSON_parse s (Inr (Some t)))) = propTeam s
      \<and> oppTeam (snd (initializeTeams JSON_parse s (Inr (Some t)))) = oppTeam s)
   \<and> (JSON_parse u = Some (JSValue p q) \<and> u \<noteq> []
        \<and> list_all (usable_entry Proposition) (parsed_members p)
        \<and> list_all (usable_entry Opposition) (parsed_members q) \<longrightarrow>
      (\<exists>pt ot. initializeTeams JSON_parse s (Inr (Some u))
            = (Inr (pt, ot), s\<lparr>chat := Some (Chat (topic s)), propTeam := Some pt, oppTeam := Some ot\<rparr>)
         \<and> team_side pt = Proposition \<and> team_side ot = Opposition
         \<and> team_name pt = (case parsed_name p of None \<Rightarrow> [27491, 26041]
                            | Some n \<Rightarrow> if n = [] then [27491, 26041] else n)
         \<and> team_name ot = (case parsed_name q of None \<Rightarrow> [21453, 26041]
                            | Some n \<Rightarrow> if n = [] then [21453, 26041] else n)
         \<and> (parsed_members p = [] \<longrightarrow> members pt = [\<lparr>debater_id = ascii ''prop-0'', name = [27491, 26041, 36777, 25163, 32, 49],
            role = [36777, 25163], side = Proposition, style = [26631, 20934],
            avatarUrl = ascii ''https://api.dicebear.com/9.x/micah/png?seed=%E6%AD%A3%E6%96%B9%E8%BE%A9%E6%89%8B%201-proposition&backgroundColor=ecfccb&backgroundType=gradientLinear&radius=50''\<rparr>])
         \<and> (parsed_members q = [] \<longrightarrow> members ot = [\<lparr>debater_id = ascii ''opp-0'', name = [21453, 26041, 36777, 25163, 32, 49],
            role = [36777, 25163], side = Opposition, style = [26631, 20934],
            avatarUrl = ascii ''https://api.dicebear.com/9.x/micah/png?seed=%E5%8F%8D%E6%96%B9%E8%BE%A9%E6%89%8B%201-opposition&backgroundColor=ffe4e6&backgroundType=gradientLinear&radius=50''\<rparr>])
         \<and> (parsed_members p \<noteq> [] \<longrightarrow>
              map (\<lambda>x. Some (name x)) (members pt) = map (map_option m_name) (parsed_members p))
         \<and> (parsed_members q \<noteq> [] \<longrightarrow>
              map (\<lambda>x. Some (name x)) (members ot) = map (map_option m_name) (parsed_members q))))"
proof (intro conjI impI)
  assume a: "r = Inr None \<or> r = Inr (Some [])"
  show "initializeTeams JSON_parse s r
        = (Inl (Error (ascii ''No response from AI'')), s\<lparr>chat := Some (Chat (topic s))\<rparr>)"
    using a by (rule initializeTeams_no_text)
  show "propTeam (snd (initializeTeams JSON_parse s r)) = propTeam s"
    by (simp add: initializeTeams_no_text [OF a])
  show "oppTeam (snd (initializeTeams JSON_parse s r)) = oppTeam s"
    by (simp add: initializeTeams_no_text [OF a])
next
  assume a: "JSON_parse t = None \<and> t \<noteq> []"
  show "initializeTeams JSON_parse s (Inr (Some t))
        = (Inl (Error (ascii ''Failed to parse debate teams configuration.'')),
           s\<lparr>chat := Some (Chat (topic s))\<rparr>)"
    using a by (simp add: initializeTeams_syntax_error)
  show "propTeam (snd (initializeTeams JSON_parse s (Inr (Some t)))) = propTeam s"
    using a by (simp add: initializeTeams_syntax_error)
  show "oppTeam (snd (initializeTeams JSON_parse s (Inr (Some t)))) = oppTeam s"
    using a by (simp add: initializeTeams_syntax_error)
next
  assume a: "JSON_parse u = Some (JSValue p q) \<and> u \<noteq> []
        \<and> list_all (usable_entry Proposition) (parsed_members p)
        \<and> list_all (usable_entry Opposition) (parsed_members q)"
  then have up: "list_all (usable_entry Proposition) (parsed_members p)"
    and uo: "list_all (usable_entry Opposition) (parsed_members q)"
    by simp_all
  obtain pt ot where pt: "make_team Proposition (team_data_or_empty p) = Inr pt"
    and ot: "make_team Opposition (team_data_or_empty q) = Inr ot"
    and r: "initializeTeams JSON_parse s (Inr (Some u))
               = (Inr (pt, ot),
                  s\<lparr>chat := Some (Chat (topic s)), propTeam := Some pt, oppTeam := Some ot\<rparr>)"
    using initializeTeams_usable [where t = u and JSON_parse = JSON_parse and p = p and q = q and s = s]
      a by blast
  note mp = make_team_members [OF up pt]
  note mo = make_team_members [OF uo ot]
  have sides: "team_side pt = Proposition \<and> team_side ot = Opposition"
    using pt ot make_team_usable [OF up] make_team_usable [OF uo] by auto
  have "team_name pt = (case parsed_name p of None \<Rightarrow> [27491, 26041]
                            | Some n \<Rightarrow> if n = [] then [27491, 26041] else n)"
    using mp(5) by (simp add: default_team_name_def split: option.splits)
  moreover have "team_name ot = (case parsed_name q of None \<Rightarrow> [21453, 26041]
                            | Some n \<Rightarrow> if n = [] then [21453, 26041] else n)"
    using mo(5) by (simp add: default_team_name_def split: option.splits)
  moreover have "parsed_members p = [] \<longrightarrow> members pt = [\<lparr>debater_id = ascii ''prop-0'', name = [27491, 26041, 36777, 25163, 32, 49],
            role = [36777, 25163], side = Proposition, style = [26631, 20934],
            avatarUrl = ascii ''https://api.dicebear.com/9.x/micah/png?seed=%E6%AD%A3%E6%96%B9%E8%BE%A9%E6%89%8B%201-proposition&backgroundColor=ecfccb&backgroundType=gradientLinear&radius=50''\<rparr>]"
    using mp(2) by (simp add: placeholder_debater)
  moreover have "parsed_members q = [] \<longrightarrow> members ot = [\<lparr>debater_id = ascii ''opp-0'', name = [21453, 26041, 36777, 25163, 32, 49],
            role = [36777, 25163], side = Opposition, style = [26631, 20934],
            avatarUrl = ascii ''https://api.dicebear.com/9.x/micah/png?seed=%E5%8F%8D%E6%96%B9%E8%BE%A9%E6%89%8B%201-opposition&backgroundColor=ffe4e6&backgroundType=gradientLinear&radius=50''\<rparr>]"
    using mo(2) by (simp add: placeholder_debater)
  ultimately show "\<exists>pt ot. initializeTeams JSON_parse s (Inr (Some u))
            = (Inr (pt, ot), s\<lparr>chat := Some (Chat (topic s)), propTeam := Some pt, oppTeam := Some ot\<rparr>)
         \<and> team_side pt = Proposition \<and> team_side ot = Opposition
         \<and> team_name pt = (case parsed_name p of None \<Rightarrow> [27491, 26041]
                            | Some n \<Rightarrow> if n = [] then [27491, 26041] else n)
         \<and> team_name ot = (case parsed_name q of None \<Rightarrow> [21453, 26041]
                            | Some n \<Rightarrow> if n = [] then [21453, 26041] else n)
         \<and> (parsed_members p = [] \<longrightarrow> members pt = [\<lparr>debater_id = ascii ''prop-0'', name = [27491, 26041, 36777, 25163, 32, 49],
            role = [36777, 25163], side = Proposition, style = [26631, 20934],
            avatarUrl = ascii ''https://api.dicebear.com/9.x/micah/png?seed=%E6%AD%A3%E6%96%B9%E8%BE%A9%E6%89%8B%201-proposition&backgroundColor=ecfccb&backgroundType=gradientLinear&radius=50''\<rparr>])
         \<and> (parsed_members q = [] \<longrightarrow> members ot = [\<lparr>debater_id = ascii ''opp-0'', name = [21453, 26041, 36777, 25163, 32, 49],
            role = [36777, 25163], side = Opposition, style = [26631, 20934],
            avatarUrl = ascii ''https://api.dicebear.com/9.x/micah/png?seed=%E5%8F%8D%E6%96%B9%E8%BE%A9%E6%89%8B%201-opposition&backgroundColor=ffe4e6&backgroundType=gradientLinear&radius=50''\<rparr>])
         \<and> (parsed_members p \<noteq> [] \<longrightarrow>
              map (\<lambda>x. Some (name x)) (members pt) = map (map_option m_name) (parsed_members p))
         \<and> (parsed_members q \<noteq> [] \<longrightarrow>
              map (\<lambda>x. Some (name x)) (members ot) = map (map_option m_name) (parsed_members q))"
    using r sides mp(3) mo(3) by blast
qed

theorem initializeTeams_failures_witness:
  "initializeTeams example_parse (new_session (ascii ''AI'')) (Inr None)
     = (Inl (Error (ascii ''No response from AI'')), (new_session (ascii ''AI''))\<lparr>chat := Some (Chat (ascii ''AI''))\<rparr>)
   \<and> propTeam (snd (initializeTeams example_parse (new_session (ascii ''AI'')) (Inr None))) = None
   \<and> example_parse (ascii ''{bad'') = None \<and> ascii ''{bad'' \<noteq> []
   \<and> initializeTeams example_parse (new_session (ascii ''AI'')) (Inr (Some (ascii ''{bad'')))
     = (Inl (Error (ascii ''Failed to parse debate teams configuration.'')),
        (new_session (ascii ''AI''))\<lparr>chat := Some (Chat (ascii ''AI''))\<rparr>)
   \<and> example_parse (ascii ''{}'') = Some (JSValue None None) \<and> ascii ''{}'' \<noteq> []
   \<and> initializeTeams example_parse (new_session (ascii ''AI'')) (Inr (Some (ascii ''{}'')))
     = (Inr (\<lparr>team_side = Proposition, team_name = [27491, 26041], members = [\<lparr>debater_id = ascii ''prop-0'', name = [27491, 26041, 36777, 25163, 32, 49],
            role = [36777, 25163], side = Proposition, style = [26631, 20934],
            avatarUrl = ascii ''https://api.dicebear.com/9.x/micah/png?seed=%E6%AD%A3%E6%96%B9%E8%BE%A9%E6%89%8B%201-proposition&backgroundColor=ecfccb&backgroundType=gradientLinear&radius=50''\<rparr>]\<rparr>,
             \<lparr>team_side = Opposition, team_name = [21453, 26041], members = [\<lparr>debater_id = ascii ''opp-0'', name = [21453, 26041, 36777, 25163, 32, 49],
            role = [36777, 25163], side = Opposition, style = [26631, 20934],
            avatarUrl = ascii ''https://api.dicebear.com/9.x/micah/png?seed=%E5%8F%8D%E6%96%B9%E8%BE%A9%E6%89%8B%201-opposition&backgroundColor=ffe4e6&backgroundType=gradientLinear&radius=50''\<rparr>]\<rparr>),
        \<lparr>topic = ascii ''AI'', chat = Some (Chat (ascii ''AI'')),
          propTeam = Some \<lparr>team_side = Proposition, team_name = [27491, 26041], members = [\<lparr>debater_id = ascii ''prop-0'', name = [27491, 26041, 36777, 25163, 32, 49],
            role = [36777, 25163], side = Proposition, style = [26631, 20934],
            avatarUrl = ascii ''https://api.dicebear.com/9.x/micah/png?seed=%E6%AD%A3%E6%96%B9%E8%BE%A9%E6%89%8B%201-proposition&backgroundColor=ecfccb&backgroundType=gradientLinear&radius=50''\<rparr>]\<rparr>,
          oppTeam = Some \<lparr>team_side = Opposition, team_name = [21453, 26041], members = [\<lparr>debater_id = ascii ''opp-0'', name = [21453, 26041, 36777, 25163, 32, 49],
            role = [36777, 25163], side = Opposition, style = [26631, 20934],
            avatarUrl = ascii ''https://api.dicebear.com/9.x/micah/png?seed=%E5%8F%8D%E6%96%B9%E8%BE%A9%E6%89%8B%201-opposition&backgroundColor=ffe4e6&backgroundType=gradientLinear&radius=50''\<rparr>]\<rparr>\<rparr>)"
proof -
  have h1: "(Inr None :: reply) = Inr None \<or> (Inr None :: reply) = Inr (Some [])"
    by simp
  have h2: "example_parse (ascii ''{bad'') = None \<and> ascii ''{bad'' \<noteq> []"
    by (simp add: example_parse_def example_text_def crowd_text_def null_entry_text_def ascii_def)
  have h3: "example_parse (ascii ''{}'') = Some (JSValue None None) \<and> ascii ''{}'' \<noteq> []
        \<and> list_all (usable_entry Proposition) (parsed_members None)
        \<and> list_all (usable_entry Opposition) (parsed_members None)"
    by (simp add: example_parse_empty_object braces_not_empty parsed_members_None)
  have e: "initializeTeams example_parse (new_session (ascii ''AI'')) (Inr (Some (ascii ''{}'')))
     = (Inr (\<lparr>team_side = Proposition, team_name = [27491, 26041], members = [\<lparr>debater_id = ascii ''prop-0'', name = [27491, 26041, 36777, 25163, 32, 49],
            role = [36777, 25163], side = Proposition, style = [26631, 20934],
            avatarUrl = ascii ''https://api.dicebear.com/9.x/micah/png?seed=%E6%AD%A3%E6%96%B9%E8%BE%A9%E6%89%8B%201-proposition&backgroundColor=ecfccb&backgroundType=gradientLinear&radius=50''\<rparr>]\<rparr>,
             \<lparr>team_side = Opposition, team_name = [21453, 26041], members = [\<lparr>debater_id = ascii ''opp-0'', name = [21453, 26041, 36777, 25163, 32, 49],
            role = [36777, 25163], side = Opposition, style = [26631, 20934],
            avatarUrl = ascii ''https://api.dicebear.com/9.x/micah/png?seed=%E5%8F%8D%E6%96%B9%E8%BE%A9%E6%89%8B%201-opposition&backgroundColor=ffe4e6&backgroundType=gradientLinear&radius=50''\<rparr>]\<rparr>),
        \<lparr>topic = ascii ''AI'', chat = Some (Chat (ascii ''AI'')),
          propTeam = Some \<lparr>team_side = Proposition, team_name = [27491, 26041], members = [\<lparr>debater_id = ascii ''prop-0'', name = [27491, 26041, 36777, 25163, 32, 49],
            role = [36777, 25163], side = Proposition, style = [26631, 20934],
            avatarUrl = ascii ''https://api.dicebear.com/9.x/micah/png?seed=%E6%AD%A3%E6%96%B9%E8%BE%A9%E6%89%8B%201-proposition&backgroundColor=ecfccb&backgroundType=gradientLinear&radius=50''\<rparr>]\<rparr>,
          oppTeam = Some \<lparr>team_side = Opposition, team_name = [21453, 26041], members = [\<lparr>debater_id = ascii ''opp-0'', name = [21453, 26041, 36777, 25163, 32, 49],
            role = [36777, 25163], side = Opposition, style = [26631, 20934],
            avatarUrl = ascii ''https://api.dicebear.com/9.x/micah/png?seed=%E5%8F%8D%E6%96%B9%E8%BE%A9%E6%89%8B%201-opposition&backgroundColor=ffe4e6&backgroundType=gradientLinear&radius=50''\<rparr>]\<rparr>\<rparr>)"
    using make_team_usable [of Proposition None] make_team_usable [of Opposition None]
    by (simp add: example_parse_empty_object braces_not_empty initializeTeams_def
        parsed_members_None placeholder_debater default_team_name_def new_session_def)
  show ?thesis
    using h1 h2 h3 e
      initializeTeams_failures [where r = "Inr None" and JSON_parse = example_parse
        and s = "new_session (ascii ''AI'')" and t = "ascii ''{bad''" and u = "ascii ''{}''"
        and p = None and q = None]
    by (simp add: new_session_def)
qed

section \<open>The session\<close>

lemma example_text_ne: "example_text \<noteq> []" "example_text \<noteq> ascii ''{}''" "example_text \<noteq> ascii ''null''"
  by (simp_all add: example_text_def ascii_def)

lemma example_parse_text: "example_parse example_text = Some example_config"
  by (simp add: example_parse_def example_text_ne)

lemma example_avatars:
  "getAvatar lin_xiaoyu Proposition
     = Inr (ascii ''https://api.dicebear.com/9.x/micah/png?seed=%E6%9E%97%E6%99%93%E5%AE%87-proposition&backgroundColor=ecfccb&backgroundType=gradientLinear&radius=50'')"
  "getAvatar wang_fang Opposition
     = Inr (ascii ''https://api.dicebear.com/9.x/micah/png?seed=%E7%8E%8B%E8%8A%B3-opposition&backgroundColor=ffe4e6&backgroundType=gradientLinear&radius=50'')"
  "getAvatar (zhuchiren @ [32769, 29579]) Opposition
     = Inr (ascii ''https://api.dicebear.com/9.x/micah/png?seed=%E4%B8%BB%E6%8C%81%E4%BA%BA%E8%80%81%E7%8E%8B-opposition&backgroundColor=ffe4e6&backgroundType=gradientLinear&radius=50'')"
  "getAvatar (ascii ''Alice Wang'') Proposition
     = Inr (ascii ''https://api.dicebear.com/9.x/micah/png?seed=Alice%20Wang-proposition&backgroundColor=ecfccb&backgroundType=gradientLinear&radius=50'')"
  by (simp_all add: getAvatar_def lin_xiaoyu_def wang_fang_def zhuchiren_def enc_defs ascii_def)

lemma example_usable:
  "usable_entry Proposition (Some \<lparr>m_name = lin_xiaoyu, m_role = r, m_style = y\<rparr>)"
  "usable_entry Opposition (Some \<lparr>m_name = wang_fang, m_role = r, m_style = y\<rparr>)"
  using example_avatars(1,2)
  by (auto simp: usable_entry_def getAvatar_def split: option.splits)

lemma example_run:
  "initializeTeams example_parse (new_session (ascii ''AI'')) (Inr (Some example_text))
     = (Inr (\<lparr>team_side = Proposition, team_name = [27491, 26041],
         members = [\<lparr>debater_id = ascii ''prop-0'', name = lin_xiaoyu, role = [19968, 36777],
                     side = Proposition, style = [20005, 35880],
                     avatarUrl = avatar lin_xiaoyu Proposition\<rparr>]\<rparr>,
             \<lparr>team_side = Opposition, team_name = [21453, 26041],
         members = [\<lparr>debater_id = ascii ''opp-0'', name = wang_fang, role = [19968, 36777],
                     side = Opposition, style = [29312, 21033],
                     avatarUrl = avatar wang_fang Opposition\<rparr>]\<rparr>),
        \<lparr>topic = ascii ''AI'', chat = Some (Chat (ascii ''AI'')),
      propTeam = Some \<lparr>team_side = Proposition, team_name = [27491, 26041],
         members = [\<lparr>debater_id = ascii ''prop-0'', name = lin_xiaoyu, role = [19968, 36777],
                     side = Proposition, style = [20005, 35880],
                     avatarUrl = avatar lin_xiaoyu Proposition\<rparr>]\<rparr>,
      oppTeam = Some \<lparr>team_side = Opposition, team_name = [21453, 26041],
         members = [\<lparr>debater_id = ascii ''opp-0'', name = wang_fang, role = [19968, 36777],
                     side = Opposition, style = [29312, 21033],
                     avatarUrl = avatar wang_fang Opposition\<rparr>]\<rparr>\<rparr>)"
proof -
  let ?p = "Some \<lparr>td_name = Some [27491, 26041],
              td_members = Some [Some \<lparr>m_name = lin_xiaoyu, m_role = [19968, 36777],
                                        m_style = [20005, 35880]\<rparr>]\<rparr>"
  let ?q = "Some \<lparr>td_name = Some [21453, 26041],
              td_members = Some [Some \<lparr>m_name = wang_fang, m_role = [19968, 36777],
                                        m_style = [29312, 21033]\<rparr>]\<rparr>"
  have up: "list_all (usable_entry Proposition) (parsed_members ?p)"
    by (simp add: parsed_members_def example_usable)
  have uo: "list_all (usable_entry Opposition) (parsed_members ?q)"
    by (simp add: parsed_members_def example_usable)
  show ?thesis
    using make_team_usable [OF up] make_team_usable [OF uo]
    by (simp add: initializeTeams_def example_parse_text example_text_ne
        example_config_def new_session_def)
      (simp add: parsed_members_def parsed_name_def debater_of_def id_prefix_def digits0 ascii_def)
qed

lemma example_session_eq:
  "example_session =
     \<lparr>topic = ascii ''AI'', chat = Some (Chat (ascii ''AI'')),
      propTeam = Some \<lparr>team_side = Proposition, team_name = [27491, 26041],
         members = [\<lparr>debater_id = ascii ''prop-0'', name = lin_xiaoyu, role = [19968, 36777],
                     side = Proposition, style = [20005, 35880],
                     avatarUrl = avatar lin_xiaoyu Proposition\<rparr>]\<rparr>,
      oppTeam = Some \<lparr>team_side = Opposition, team_name = [21453, 26041],
         members = [\<lparr>debater_id = ascii ''opp-0'', name = wang_fang, role = [19968, 36777],
                     side = Opposition, style = [29312, 21033],
                     avatarUrl = avatar wang_fang Opposition\<rparr>]\<rparr>\<rparr>"
  by (simp add: example_session_def example_run)

lemma chat_example_session: "chat example_session = Some (Chat (ascii ''AI''))"
  by (simp add: example_session_eq)

lemma chat_initializeTeams:
  "chat (snd (initializeTeams JSON_parse s r)) = Some (Chat (topic s))"
  by (simp add: initializeTeams_def Let_def split: sum.splits option.splits parsed.splits)

lemma nextTurn_initialized:
  "chat s = Some c \<Longrightarrow> nextTurn s userInput backend = nextTurn_receive (backend (outbound userInput))"
  by (simp add: nextTurn_def nextTurn_send_def)

text \<open>A rejection with \<open>null\<close> or \<open>undefined\<close> makes the \<open>catch\<close> block itself throw:
  reading the message of such a value raises a TypeError.\<close>

lemma nextTurn_nullish:
  "chat s = Some c \<Longrightarrow> backend (outbound userInput) = Inl Nullish \<Longrightarrow>
   nextTurn s userInput backend = Inl TypeError"
  by (simp add: nextTurn_initialized nextTurn_receive_def)

text \<open>
  C1, amended. The session has no guard against overlapping calls: \<open>nextTurn\<close> throws
  only when the chat was never created, and with a chat it sends its message whatever
  calls are still suspended. The guard is in the caller: \<open>triggerNextTurn\<close> returns at
  once, without calling \<open>nextTurn\<close> and without changing the state, when the flag
  \<open>isLoadingTurn\<close> that it reads is set, and sets the flag when it goes on.
\<close>

theorem nextTurn_guard_is_chat_only:
  "(call_nextTurn w u = Inl e \<longleftrightarrow> chat (session w) = None \<and> e = Error (ascii ''Chat not initialized''))
   \<and> (chat (session w) \<noteq> None \<longrightarrow>
        call_nextTurn w u = Inr (w\<lparr>in_flight := in_flight w @ [outbound u]\<rparr>))
   \<and> (isLoadingTurn app \<longrightarrow>
        triggerNextTurn_enter app v = None \<and> triggerNextTurn lc s app v backend = app)
   \<and> (\<not> isLoadingTurn app \<longrightarrow>
        (\<exists>app1. triggerNextTurn_enter app v = Some app1 \<and> isLoadingTurn app1))"
  by (auto simp: call_nextTurn_def nextTurn_send_def triggerNextTurn_def triggerNextTurn_enter_def
      Let_def split: option.splits)

text \<open>
  C1, as the claim states it, fails: with one call suspended, a second call of
  \<open>nextTurn\<close> on the same session is neither rejected nor ignored; its message is sent
  and two calls are in flight, and each of them returns its segments when it is answered.
\<close>

theorem overlapping_calls_accepted_counterexample:
  "call_nextTurn \<lparr>session = example_session, in_flight = []\<rparr> None
     = Inr \<lparr>session = example_session, in_flight = [default_prompt]\<rparr>
   \<and> call_nextTurn \<lparr>session = example_session, in_flight = [default_prompt]\<rparr> (Some (ascii ''I object''))
     = Inr \<lparr>session = example_session, in_flight = [default_prompt, ascii ''I object'']\<rparr>
   \<and> answer_nextTurn \<lparr>session = example_session, in_flight = [default_prompt, ascii ''I object'']\<rparr>
       (Inr (Some (ascii ''MODERATOR: hi'')))
     = Some (Inr [\<lparr>speaker = zhuchiren, content = ascii ''hi'', type = moderator\<rparr>],
             \<lparr>session = example_session, in_flight = [ascii ''I object'']\<rparr>)"
proof -
  have "segmenter (ascii ''MODERATOR: hi'') = [\<lparr>speaker = zhuchiren, content = ascii ''hi'', type = moderator\<rparr>]"
    by (simp add: segmenter_defs)
  then have "answer_nextTurn \<lparr>session = example_session, in_flight = [default_prompt, ascii ''I object'']\<rparr>
       (Inr (Some (ascii ''MODERATOR: hi'')))
     = Some (Inr [\<lparr>speaker = zhuchiren, content = ascii ''hi'', type = moderator\<rparr>],
             \<lparr>session = example_session, in_flight = [ascii ''I object'']\<rparr>)"
    by (simp add: answer_nextTurn_def nextTurn_receive_def)
  moreover have "call_nextTurn \<lparr>session = example_session, in_flight = []\<rparr> None
     = Inr \<lparr>session = example_session, in_flight = [default_prompt]\<rparr>"
    by (simp add: call_nextTurn_def nextTurn_send_def chat_example_session outbound_def)
  moreover have "call_nextTurn \<lparr>session = example_session, in_flight = [default_prompt]\<rparr> (Some (ascii ''I object''))
     = Inr \<lparr>session = example_session, in_flight = [default_prompt, ascii ''I object'']\<rparr>"
    by (simp add: call_nextTurn_def nextTurn_send_def chat_example_session outbound_def)
      (simp add: ascii_def)
  ultimately show ?thesis by simp
qed

theorem nextTurn_guard_is_chat_only_witness:
  "chat (session \<lparr>session = example_session, in_flight = [default_prompt]\<rparr>) \<noteq> None
   \<and> call_nextTurn \<lparr>session = example_session, in_flight = [default_prompt]\<rparr> None
       = Inr \<lparr>session = example_session, in_flight = [default_prompt, default_prompt]\<rparr>
   \<and> isLoadingTurn \<lparr>isLoadingTurn = True, messages = [], speaking = None, error_text = None\<rparr>
   \<and> triggerNextTurn ascii_lower example_session
        \<lparr>isLoadingTurn = True, messages = [], speaking = None, error_text = None\<rparr> None example_backend
       = \<lparr>isLoadingTurn = True, messages = [], speaking = None, error_text = None\<rparr>
   \<and> \<not> isLoadingTurn \<lparr>isLoadingTurn = False, messages = [], speaking = None, error_text = None\<rparr>
   \<and> triggerNextTurn_enter \<lparr>isLoadingTurn = False, messages = [], speaking = None, error_text = None\<rparr> None
       = Some \<lparr>isLoadingTurn = True, messages = [], speaking = None, error_text = None\<rparr>"
proof -
  have h1: "chat (session \<lparr>session = example_session, in_flight = [default_prompt]\<rparr>) \<noteq> None"
    by (simp add: chat_example_session)
  have h2: "isLoadingTurn \<lparr>isLoadingTurn = True, messages = [], speaking = None, error_text = None\<rparr>"
    by simp
  have h3: "\<not> isLoadingTurn \<lparr>isLoadingTurn = False, messages = [], speaking = None, error_text = None\<rparr>"
    by simp
  show ?thesis
    using h1
      nextTurn_guard_is_chat_only [of "\<lparr>session = example_session, in_flight = [default_prompt]\<rparr>" None _
        "\<lparr>isLoadingTurn = True, messages = [], speaking = None, error_text = None\<rparr>" None
        ascii_lower example_session example_backend]
      nextTurn_guard_is_chat_only [of _ _ _ "\<lparr>isLoadingTurn = False, messages = [], speaking = None, error_text = None\<rparr>" None]
    by (simp add: outbound_def triggerNextTurn_enter_def)
qed

text \<open>
  C2, amended. On a session on which \<open>initializeTeams\<close> has succeeded, \<open>nextTurn\<close> does
  not throw, unless the backend's promise is rejected with \<open>null\<close> or \<open>undefined\<close>. When
  the backend fails with any other value, an error object in particular, it returns
  exactly one segment of type \<open>moderator\<close>, spoken by the system, whose content is the
  words for "generation error", a colon and a space followed by the message of the
  value. When the backend answers, it returns the segments of the segmenter; their
  speakers are the labels as the model wrote them, trimmed, and resolving them against
  the rosters is left to the caller.
\<close>

theorem nextTurn_fail_soft:
  assumes "fst (initializeTeams JSON_parse s0 r0) = Inr teams"
  shows "(backend (outbound userInput) \<noteq> Inl Nullish \<longrightarrow>
           \<not> isl (nextTurn (snd (initializeTeams JSON_parse s0 r0)) userInput backend))
    \<and> (backend (outbound userInput) = Inl (Thrown m) \<longrightarrow>
         nextTurn (snd (initializeTeams JSON_parse s0 r0)) userInput backend
           = Inr [\<lparr>speaker = [31995, 32479],
                   content = [29983, 25104, 38169, 35823, 58, 32] @ message_of m,
                   type = moderator\<rparr>])
    \<and> (backend (outbound userInput) = Inr t \<longrightarrow>
         nextTurn (snd (initializeTeams JSON_parse s0 r0)) userInput backend
           = Inr (segmenter (case t of None \<Rightarrow> [] | Some x \<Rightarrow> x)))"
  using nextTurn_initialized [OF chat_initializeTeams, of JSON_parse s0 r0 userInput backend]
  by (auto simp: nextTurn_receive_def split: sum.splits thrown.splits)

section \<open>Speaker resolution\<close>

lemmas resolver_defs = attribute_def find_member_def qualifies_def normalize_def includes_str_def
  ascii_lower_def is_ws_def roster_def lin_xiaoyu_def wang_fang_def zhang_san_def zhuchiren_def
  sublist_code Let_def

lemma find_member_roster: "find_member lc n team = find (qualifies lc n) (roster team)"
  by (simp add: find_member_def roster_def split: option.splits)

lemma find_first:
  "i < length xs \<Longrightarrow> P (xs ! i) \<Longrightarrow> \<forall>j<i. \<not> P (xs ! j) \<Longrightarrow> find P xs = Some (xs ! i)"
  by (auto simp: find_Some_iff)

lemma find_no_member: "\<forall>m\<in>set xs. \<not> P m \<Longrightarrow> find P xs = None"
  by (auto simp: find_None_iff)

lemma attribute_proposition:
  "find_member lc (normalize lc (speaker seg)) (propTeam s) = Some m \<Longrightarrow>
   attribute lc s seg =
     (\<lparr>msg_role = role_model, speakerName = Some (name m), speakerSide = Some side_proposition,
       msg_avatarUrl = Some (avatarUrl m), msg_content = content seg\<rparr>, Some (name m))"
  by (simp add: attribute_def Let_def)

lemma attribute_opposition:
  "find_member lc (normalize lc (speaker seg)) (propTeam s) = None \<Longrightarrow>
   find_member lc (normalize lc (speaker seg)) (oppTeam s) = Some m \<Longrightarrow>
   attribute lc s seg =
     (\<lparr>msg_role = role_model, speakerName = Some (name m), speakerSide = Some side_opposition,
       msg_avatarUrl = Some (avatarUrl m), msg_content = content seg\<rparr>, Some (name m))"
  by (simp add: attribute_def Let_def)

lemma attribute_moderator:
  "find_member lc (normalize lc (speaker seg)) (propTeam s) = None \<Longrightarrow>
   find_member lc (normalize lc (speaker seg)) (oppTeam s) = None \<Longrightarrow>
   attribute lc s seg =
     (\<lparr>msg_role = role_model, speakerName = Some (speaker seg), speakerSide = Some side_moderator,
       msg_avatarUrl = None, msg_content = content seg\<rparr>, None)"
  by (simp add: attribute_def Let_def)

lemma qualifies_iff:
  "qualifies lc n m \<longleftrightarrow>
     (\<exists>u v. n = u @ normalize lc (name m) @ v) \<or> (\<exists>u v. normalize lc (name m) = u @ n @ v)"
  by (auto simp: qualifies_def includes_str_def sublist_def Let_def)

lemma normalize_no_ws: "\<forall>c\<in>set (normalize lc x). \<not> is_ws c"
  by (simp add: normalize_def)

lemma deliver_fields:
  "messages (deliver lc s app seg) = messages app @ [fst (attribute lc s seg)]"
  "speaking (deliver lc s app seg) = snd (attribute lc s seg)"
  "error_text (deliver lc s app seg) = error_text app"
  "isLoadingTurn (deliver lc s app seg) = isLoadingTurn app"
  by (simp_all add: deliver_def split_def)

lemma foldl_deliver:
  "messages (foldl (deliver lc s) app segs) = messages app @ map (\<lambda>g. fst (attribute lc s g)) segs"
  "error_text (foldl (deliver lc s) app segs) = error_text app"
  by (induction segs arbitrary: app) (simp_all add: deliver_fields)

lemma triggerNextTurn_delivers:
  assumes "triggerNextTurn_enter app u = Some app1" and "nextTurn s u backend = Inr segs"
  shows "messages (triggerNextTurn lc s app u backend)
           = messages app1 @ map (\<lambda>g. fst (attribute lc s g)) segs"
    and "error_text (triggerNextTurn lc s app u backend) = error_text app1"
  using assms by (simp_all add: triggerNextTurn_def foldl_deliver)

lemma normalize_fold: "lc a = lc b \<Longrightarrow> normalize lc a = normalize lc b"
  by (simp add: normalize_def)

text \<open>
  C5. Normalizing a string applies the case mapping and removes every white space
  character, so that strings that the case mapping makes equal normalize equally. A
  member qualifies for a normalized label exactly when its normalized name occurs in the
  label or the label occurs in its normalized name. The first qualifying member of the
  proposition roster gets the segment; when no member of the proposition qualifies, the
  first qualifying member of the opposition roster gets it; in both cases the name shown
  and the current speaker are the name stored in the roster. When no member of either
  roster qualifies, the message is the moderator's, it keeps the label as its name and
  has no avatar, and no current speaker is set. The message so attributed is the one
  that is added to the messages, for every segment of a turn and in their order, and no
  error is set.
\<close>

theorem speaker_resolution_first_match:
  "normalize lc x = filter (\<lambda>c. \<not> is_ws c) (lc x)
   \<and> (\<forall>c\<in>set (normalize lc x). \<not> is_ws c)
   \<and> (lc a = lc b \<longrightarrow> normalize lc a = normalize lc b)
   \<and> (qualifies lc n m \<longleftrightarrow>
        (\<exists>u v. n = u @ normalize lc (name m) @ v) \<or> (\<exists>u v. normalize lc (name m) = u @ n @ v))
   \<and> (i < length (roster (propTeam s))
        \<and> qualifies lc (normalize lc (speaker seg)) (roster (propTeam s) ! i)
        \<and> (\<forall>j<i. \<not> qualifies lc (normalize lc (speaker seg)) (roster (propTeam s) ! j)) \<longrightarrow>
      attribute lc s seg =
        (\<lparr>msg_role = role_model, speakerName = Some (name (roster (propTeam s) ! i)),
          speakerSide = Some side_proposition,
          msg_avatarUrl = Some (avatarUrl (roster (propTeam s) ! i)),
          msg_content = content seg\<rparr>, Some (name (roster (propTeam s) ! i))))
   \<and> ((\<forall>d\<in>set (roster (propTeam s)). \<not> qualifies lc (normalize lc (speaker seg)) d)
        \<and> k < length (roster (oppTeam s))
        \<and> qualifies lc (normalize lc (speaker seg)) (roster (oppTeam s) ! k)
        \<and> (\<forall>j<k. \<not> qualifies lc (normalize lc (speaker seg)) (roster (oppTeam s) ! j)) \<longrightarrow>
      attribute lc s seg =
        (\<lparr>msg_role = role_model, speakerName = Some (name (roster (oppTeam s) ! k)),
          speakerSide = Some side_opposition,
          msg_avatarUrl = Some (avatarUrl (roster (oppTeam s) ! k)),
          msg_content = content seg\<rparr>, Some (name (roster (oppTeam s) ! k))))
   \<and> ((\<forall>d\<in>set (roster (propTeam s)). \<not> qualifies lc (normalize lc (speaker seg)) d)
        \<and> (\<forall>d\<in>set (roster (oppTeam s)). \<not> qualifies lc (normalize lc (speaker seg)) d) \<longrightarrow>
      attribute lc s seg =
        (\<lparr>msg_role = role_model, speakerName = Some (speaker seg),
          speakerSide = Some side_moderator, msg_avatarUrl = None,
          msg_content = content seg\<rparr>, None))
   \<and> messages (deliver lc s app seg) = messages app @ [fst (attribute lc s seg)]
   \<and> speaking (deliver lc s app seg) = snd (attribute lc s seg)
   \<and> error_text (deliver lc s app seg) = error_text app
   \<and> (triggerNextTurn_enter before ui = Some entered \<and> nextTurn s ui backend = Inr segs \<longrightarrow>
        messages (triggerNextTurn lc s before ui backend)
          = messages entered @ map (\<lambda>g. fst (attribute lc s g)) segs
        \<and> error_text (triggerNextTurn lc s before ui backend) = error_text entered)"
proof (intro conjI impI)
  show "normalize lc x = filter (\<lambda>c. \<not> is_ws c) (lc x)" by (simp add: normalize_def)
next
  show "\<forall>c\<in>set (normalize lc x). \<not> is_ws c" by (rule normalize_no_ws)
next
  assume "lc a = lc b"
  then show "normalize lc a = normalize lc b" by (rule normalize_fold)
next
  show "qualifies lc n m \<longleftrightarrow>
        (\<exists>u v. n = u @ normalize lc (name m) @ v) \<or> (\<exists>u v. normalize lc (name m) = u @ n @ v)"
    by (rule qualifies_iff)
next
  assume a: "i < length (roster (propTeam s))
        \<and> qualifies lc (normalize lc (speaker seg)) (roster (propTeam s) ! i)
        \<and> (\<forall>j<i. \<not> qualifies lc (normalize lc (speaker seg)) (roster (propTeam s) ! j))"
  then have "find_member lc (normalize lc (speaker seg)) (propTeam s) = Some (roster (propTeam s) ! i)"
    by (simp add: find_member_roster find_first)
  then show "attribute lc s seg =
        (\<lparr>msg_role = role_model, speakerName = Some (name (roster (propTeam s) ! i)),
          speakerSide = Some side_proposition,
          msg_avatarUrl = Some (avatarUrl (roster (propTeam s) ! i)),
          msg_content = content seg\<rparr>, Some (name (roster (propTeam s) ! i)))"
    by (rule attribute_proposition)
next
  assume a: "(\<forall>d\<in>set (roster (propTeam s)). \<not> qualifies lc (normalize lc (speaker seg)) d)
        \<and> k < length (roster (oppTeam s))
        \<and> qualifies lc (normalize lc (speaker seg)) (roster (oppTeam s) ! k)
        \<and> (\<forall>j<k. \<not> qualifies lc (normalize lc (speaker seg)) (roster (oppTeam s) ! j))"
  then have p: "find_member lc (normalize lc (speaker seg)) (propTeam s) = None"
    by (simp add: find_member_roster find_no_member)
  from a have "find_member lc (normalize lc (speaker seg)) (oppTeam s) = Some (roster (oppTeam s) ! k)"
    by (simp add: find_member_roster find_first)
  with p show "attribute lc s seg =
        (\<lparr>msg_role = role_model, speakerName = Some (name (roster (oppTeam s) ! k)),
          speakerSide = Some side_opposition,
          msg_avatarUrl = Some (avatarUrl (roster (oppTeam s) ! k)),
          msg_content = content seg\<rparr>, Some (name (roster (oppTeam s) ! k)))"
    by (rule attribute_opposition)
next
  assume a: "(\<forall>d\<in>set (roster (propTeam s)). \<not> qualifies lc (normalize lc (speaker seg)) d)
        \<and> (\<forall>d\<in>set (roster (oppTeam s)). \<not> qualifies lc (normalize lc (speaker seg)) d)"
  then have "find_member lc (normalize lc (speaker seg)) (propTeam s) = None"
    "find_member lc (normalize lc (speaker seg)) (oppTeam s) = None"
    by (simp_all add: find_member_roster find_no_member)
  then show "attribute lc s seg =
        (\<lparr>msg_role = role_model, speakerName = Some (speaker seg),
          speakerSide = Some side_moderator, msg_avatarUrl = None,
          msg_content = content seg\<rparr>, None)"
    by (rule attribute_moderator)
next
  show "messages (deliver lc s app seg) = messages app @ [fst (attribute lc s seg)]"
    "speaking (deliver lc s app seg) = snd (attribute lc s seg)"
    "error_text (deliver lc s app seg) = error_text app"
    by (rule deliver_fields)+
next
  assume a: "triggerNextTurn_enter before ui = Some entered \<and> nextTurn s ui backend = Inr segs"
  then show "messages (triggerNextTurn lc s before ui backend)
          = messages entered @ map (\<lambda>g. fst (attribute lc s g)) segs"
    "error_text (triggerNextTurn lc s before ui backend) = error_text entered"
    by (simp_all add: triggerNextTurn_delivers)
qed

lemma example_debater_fields [simp]:
  "name (example_debater sd i nm) = nm" "avatarUrl (example_debater sd i nm) = avatar nm sd"
  by (simp_all add: example_debater_def debater_of_def)

lemma roster_example:
  "roster (propTeam example_session) =
     [\<lparr>debater_id = ascii ''prop-0'', name = lin_xiaoyu, role = [19968, 36777],
       side = Proposition, style = [20005, 35880],
       avatarUrl = avatar lin_xiaoyu Proposition\<rparr>]"
  "roster (oppTeam example_session) =
     [\<lparr>debater_id = ascii ''opp-0'', name = wang_fang, role = [19968, 36777],
       side = Opposition, style = [29312, 21033],
       avatarUrl = avatar wang_fang Opposition\<rparr>]"
  by (simp_all add: example_session_eq roster_def)

lemma roster_cast:
  "roster (propTeam cast_session) =
     [example_debater Proposition 0 (ascii ''Bob Li''),
      example_debater Proposition 1 (ascii ''Alice Wang''),
      example_debater Proposition 2 (ascii ''Alice Chen'')]"
  "roster (oppTeam cast_session) =
     [example_debater Opposition 0 (ascii ''Alice Zhao''),
      example_debater Opposition 1 (ascii ''Carol Sun'')]"
  by (simp_all add: cast_session_def roster_def)

lemmas qualify_defs = qualifies_def normalize_def includes_str_def ascii_lower_def is_ws_def
  lin_xiaoyu_def wang_fang_def zhang_san_def zhuchiren_def sublist_code Let_def

lemma example_turn_segments:
  "nextTurn example_session None example_backend
     = Inr [\<lparr>speaker = lin_xiaoyu @ [21516, 23398],
             content = [35874, 35874, 20027, 24109, 12290], type = debater\<rparr>]"
proof -
  have "nextTurn example_session None example_backend = Inr (segmenter example_turn)"
    by (simp add: nextTurn_initialized [OF chat_example_session] outbound_def example_backend_def
        nextTurn_receive_def)
  moreover have "segmenter example_turn
     = [\<lparr>speaker = lin_xiaoyu @ [21516, 23398],
             content = [35874, 35874, 20027, 24109, 12290], type = debater\<rparr>]"
    by (simp add: example_turn_def lin_xiaoyu_def segmenter_defs)
  ultimately show ?thesis by simp
qed

theorem speaker_resolution_first_match_witness:
  "normalize ascii_lower (ascii ''ALICE'') = ascii ''alice''
   \<and> normalize ascii_lower (ascii ''Alice Wang'') = ascii ''alicewang''
   \<and> qualifies ascii_lower (ascii ''alice'') (example_debater Proposition 2 (ascii ''Alice Chen''))
   \<and> qualifies ascii_lower (ascii ''alice'') (example_debater Opposition 0 (ascii ''Alice Zhao''))
   \<and> attribute ascii_lower cast_session
      \<lparr>speaker = ascii ''ALICE'', content = ascii ''a'', type = debater\<rparr>
     = (\<lparr>msg_role = role_model, speakerName = Some (ascii ''Alice Wang''),
         speakerSide = Some side_proposition,
         msg_avatarUrl = Some (avatar (ascii ''Alice Wang'') Proposition),
         msg_content = ascii ''a''\<rparr>, Some (ascii ''Alice Wang''))
   \<and> attribute ascii_lower cast_session
      \<lparr>speaker = ascii ''carol  sun'', content = ascii ''b'', type = debater\<rparr>
     = (\<lparr>msg_role = role_model, speakerName = Some (ascii ''Carol Sun''),
         speakerSide = Some side_opposition,
         msg_avatarUrl = Some (avatar (ascii ''Carol Sun'') Opposition),
         msg_content = ascii ''b''\<rparr>, Some (ascii ''Carol Sun''))
   \<and> attribute ascii_lower example_session
      \<lparr>speaker = lin_xiaoyu @ [32], content = ascii ''c'', type = debater\<rparr>
     = (\<lparr>msg_role = role_model, speakerName = Some lin_xiaoyu,
         speakerSide = Some side_proposition,
         msg_avatarUrl = Some (avatar lin_xiaoyu Proposition),
         msg_content = ascii ''c''\<rparr>, Some lin_xiaoyu)
   \<and> attribute ascii_lower example_session
      \<lparr>speaker = zhang_san, content = ascii ''d'', type = debater\<rparr>
     = (\<lparr>msg_role = role_model, speakerName = Some zhang_san,
         speakerSide = Some side_moderator, msg_avatarUrl = None,
         msg_content = ascii ''d''\<rparr>, None)
   \<and> messages (deliver ascii_lower cast_session
        \<lparr>isLoadingTurn = True, messages = [], speaking = None, error_text = None\<rparr>
        \<lparr>speaker = ascii ''ALICE'', content = ascii ''a'', type = debater\<rparr>)
     = [\<lparr>msg_role = role_model, speakerName = Some (ascii ''Alice Wang''),
         speakerSide = Some side_proposition,
         msg_avatarUrl = Some (avatar (ascii ''Alice Wang'') Proposition),
         msg_content = ascii ''a''\<rparr>]
   \<and> messages (triggerNextTurn ascii_lower example_session
        \<lparr>isLoadingTurn = False, messages = [], speaking = None, error_text = None\<rparr>
        None example_backend)
     = [\<lparr>msg_role = role_model, speakerName = Some lin_xiaoyu,
         speakerSide = Some side_proposition,
         msg_avatarUrl = Some (avatar lin_xiaoyu Proposition),
         msg_content = [35874, 35874, 20027, 24109, 12290]\<rparr>]
   \<and> error_text (triggerNextTurn ascii_lower example_session
        \<lparr>isLoadingTurn = False, messages = [], speaking = None, error_text = None\<rparr>
        None example_backend) = None"
proof -
  let ?a = "\<lparr>speaker = ascii ''ALICE'', content = ascii ''a'', type = debater\<rparr>"
  let ?c = "\<lparr>speaker = ascii ''carol  sun'', content = ascii ''b'', type = debater\<rparr>"
  let ?l = "\<lparr>speaker = lin_xiaoyu @ [32], content = ascii ''c'', type = debater\<rparr>"
  let ?z = "\<lparr>speaker = zhang_san, content = ascii ''d'', type = debater\<rparr>"
  let ?t = "\<lparr>speaker = lin_xiaoyu @ [21516, 23398],
             content = [35874, 35874, 20027, 24109, 12290], type = debater\<rparr>"
  let ?app = "\<lparr>isLoadingTurn = False, messages = [], speaking = None, error_text = None\<rparr>"
  let ?app1 = "\<lparr>isLoadingTurn = True, messages = [], speaking = None, error_text = None\<rparr>"
  have n1: "normalize ascii_lower (ascii ''ALICE'') = ascii ''alice''"
    "normalize ascii_lower (ascii ''Alice Wang'') = ascii ''alicewang''"
    "normalize ascii_lower (ascii ''carol  sun'') = ascii ''carolsun''"
    by (simp_all add: normalize_def ascii_lower_def is_ws_def ascii_def)
  have q: "qualifies ascii_lower (ascii ''alice'') (example_debater Proposition 2 (ascii ''Alice Chen''))"
    "qualifies ascii_lower (ascii ''alice'') (example_debater Opposition 0 (ascii ''Alice Zhao''))"
    by (simp_all add: qualify_defs ascii_def)
  have h0: "ascii_lower (ascii ''ALICE'') = ascii_lower (ascii ''alice'')"
    by (simp add: ascii_lower_def ascii_def)
  have h1: "1 < length (roster (propTeam cast_session))
        \<and> qualifies ascii_lower (normalize ascii_lower (speaker ?a)) (roster (propTeam cast_session) ! 1)
        \<and> (\<forall>j<1. \<not> qualifies ascii_lower (normalize ascii_lower (speaker ?a)) (roster (propTeam cast_session) ! j))"
    by (simp add: roster_cast) (simp add: qualify_defs ascii_def)
  have h2: "(\<forall>d\<in>set (roster (propTeam cast_session)). \<not> qualifies ascii_lower (normalize ascii_lower (speaker ?c)) d)
        \<and> 1 < length (roster (oppTeam cast_session))
        \<and> qualifies ascii_lower (normalize ascii_lower (speaker ?c)) (roster (oppTeam cast_session) ! 1)
        \<and> (\<forall>j<1. \<not> qualifies ascii_lower (normalize ascii_lower (speaker ?c)) (roster (oppTeam cast_session) ! j))"
    by (simp add: roster_cast) (simp add: qualify_defs ascii_def)
  have h3: "0 < length (roster (propTeam example_session))
        \<and> qualifies ascii_lower (normalize ascii_lower (speaker ?l)) (roster (propTeam example_session) ! 0)
        \<and> (\<forall>j<0. \<not> qualifies ascii_lower (normalize ascii_lower (speaker ?l)) (roster (propTeam example_session) ! j))"
    by (simp add: roster_example qualify_defs)
  have h4: "(\<forall>d\<in>set (roster (propTeam example_session)). \<not> qualifies ascii_lower (normalize ascii_lower (speaker ?z)) d)
        \<and> (\<forall>d\<in>set (roster (oppTeam example_session)). \<not> qualifies ascii_lower (normalize ascii_lower (speaker ?z)) d)"
    by (simp add: roster_example qualify_defs)
  have h5: "0 < length (roster (propTeam example_session))
        \<and> qualifies ascii_lower (normalize ascii_lower (speaker ?t)) (roster (propTeam example_session) ! 0)
        \<and> (\<forall>j<0. \<not> qualifies ascii_lower (normalize ascii_lower (speaker ?t)) (roster (propTeam example_session) ! j))"
    by (simp add: roster_example qualify_defs)
  have h6: "triggerNextTurn_enter ?app None = Some ?app1
        \<and> nextTurn example_session None example_backend = Inr [?t]"
    by (simp add: triggerNextTurn_enter_def example_turn_segments)
  note T = speaker_resolution_first_match
  have r0: "normalize ascii_lower (ascii ''ALICE'') = normalize ascii_lower (ascii ''alice'')"
    using T [where lc = ascii_lower and a = "ascii ''ALICE''" and b = "ascii ''alice''",
        THEN conjunct2, THEN conjunct2, THEN conjunct1, THEN mp, OF h0] .
  have r1: "attribute ascii_lower cast_session ?a
     = (\<lparr>msg_role = role_model, speakerName = Some (ascii ''Alice Wang''),
         speakerSide = Some side_proposition,
         msg_avatarUrl = Some (avatar (ascii ''Alice Wang'') Proposition),
         msg_content = ascii ''a''\<rparr>, Some (ascii ''Alice Wang''))"
    using T [where lc = ascii_lower and s = cast_session and seg = ?a and i = 1,
        THEN conjunct2, THEN conjunct2, THEN conjunct2, THEN conjunct2, THEN conjunct1, THEN mp, OF h1]
    by (simp add: roster_cast)
  have r2: "attribute ascii_lower cast_session ?c
     = (\<lparr>msg_role = role_model, speakerName = Some (ascii ''Carol Sun''),
         speakerSide = Some side_opposition,
         msg_avatarUrl = Some (avatar (ascii ''Carol Sun'') Opposition),
         msg_content = ascii ''b''\<rparr>, Some (ascii ''Carol Sun''))"
    using T [where lc = ascii_lower and s = cast_session and seg = ?c and k = 1,
        THEN conjunct2, THEN conjunct2, THEN conjunct2, THEN conjunct2, THEN conjunct2, THEN conjunct1, THEN mp, OF h2]
    by (simp add: roster_cast)
  have r3: "attribute ascii_lower example_session ?l
     = (\<lparr>msg_role = role_model, speakerName = Some lin_xiaoyu,
         speakerSide = Some side_proposition,
         msg_avatarUrl = Some (avatar lin_xiaoyu Proposition),
         msg_content = ascii ''c''\<rparr>, Some lin_xiaoyu)"
    using T [where lc = ascii_lower and s = example_session and seg = ?l and i = 0,
        THEN conjunct2, THEN conjunct2, THEN conjunct2, THEN conjunct2, THEN conjunct1, THEN mp, OF h3]
    by (simp add: roster_example)
  have r4: "attribute ascii_lower example_session ?z
     = (\<lparr>msg_role = role_model, speakerName = Some zhang_san,
         speakerSide = Some side_moderator, msg_avatarUrl = None,
         msg_content = ascii ''d''\<rparr>, None)"
    using T [where lc = ascii_lower and s = example_session and seg = ?z,
        THEN conjunct2, THEN conjunct2, THEN conjunct2, THEN conjunct2, THEN conjunct2, THEN conjunct2, THEN conjunct1, THEN mp, OF h4]
    by simp
  have r5: "attribute ascii_lower example_session ?t
     = (\<lparr>msg_role = role_model, speakerName = Some lin_xiaoyu,
         speakerSide = Some side_proposition,
         msg_avatarUrl = Some (avatar lin_xiaoyu Proposition),
         msg_content = [35874, 35874, 20027, 24109, 12290]\<rparr>, Some lin_xiaoyu)"
    using T [where lc = ascii_lower and s = example_session and seg = ?t and i = 0,
        THEN conjunct2, THEN conjunct2, THEN conjunct2, THEN conjunct2, THEN conjunct1, THEN mp, OF h5]
    by (simp add: roster_example)
  have r6: "messages (deliver ascii_lower cast_session ?app1 ?a)
     = messages ?app1 @ [fst (attribute ascii_lower cast_session ?a)]"
    using T [where lc = ascii_lower and s = cast_session and seg = ?a and app = ?app1,
        THEN conjunct2, THEN conjunct2, THEN conjunct2, THEN conjunct2, THEN conjunct2, THEN conjunct2, THEN conjunct2, THEN conjunct1] .
  have r7: "messages (triggerNextTurn ascii_lower example_session ?app None example_backend)
          = messages ?app1 @ map (\<lambda>g. fst (attribute ascii_lower example_session g)) [?t]
        \<and> error_text (triggerNextTurn ascii_lower example_session ?app None example_backend)
          = error_text ?app1"
    using T [where lc = ascii_lower and s = example_session and before = ?app and ui = None
        and entered = ?app1 and backend = example_backend and segs = "[?t]",
        THEN conjunct2, THEN conjunct2, THEN conjunct2, THEN conjunct2, THEN conjunct2, THEN conjunct2, THEN conjunct2, THEN conjunct2, THEN conjunct2, THEN conjunct2, THEN mp, OF h6] .
  show ?thesis
    by (simp only: n1(1,2) q r1 r2 r3 r4) (simp add: r5 r6 r7 r1)
qed

lemma normalize_ws_only:
  assumes "\<forall>c\<in>set x. is_ws c" and "\<And>y. (\<forall>c\<in>set y. is_ws c) \<Longrightarrow> (\<forall>c\<in>set (lc y). is_ws c)"
  shows "normalize lc x = []"
  using assms(2) [OF assms(1)] by (simp add: normalize_def filter_empty_conv)

lemma qualifies_empty: "qualifies lc [] d"
  by (simp add: qualifies_def includes_str_def Let_def)

lemma ascii_lower_ws: "(\<forall>c\<in>set y. is_ws c) \<Longrightarrow> (\<forall>c\<in>set (ascii_lower y). is_ws c)"
  by (auto simp: ascii_lower_def is_ws_def)

text \<open>
  C9. When the speaker label of a segment is empty or holds white space only, and the
  case mapping keeps such strings free of other characters, the normalized label is the
  empty string, every member qualifies for it, and the segment goes to the first member
  of the proposition roster.
\<close>

theorem empty_label_first_proposition_member:
  assumes "\<forall>c\<in>set (speaker seg). is_ws c"
    and "\<And>y. (\<forall>c\<in>set y. is_ws c) \<Longrightarrow> (\<forall>c\<in>set (lc y). is_ws c)"
    and "propTeam s = Some t" and "members t = m # ms"
  shows "normalize lc (speaker seg) = [] \<and> qualifies lc [] d
    \<and> attribute lc s seg =
        (\<lparr>msg_role = role_model, speakerName = Some (name m), speakerSide = Some side_proposition,
          msg_avatarUrl = Some (avatarUrl m), msg_content = content seg\<rparr>, Some (name m))"
proof -
  have n: "normalize lc (speaker seg) = []"
    using assms(1,2) by (rule normalize_ws_only)
  have "find_member lc (normalize lc (speaker seg)) (propTeam s) = Some m"
    using assms(3,4) by (simp add: n find_member_def qualifies_empty)
  then show ?thesis
    using n by (simp add: attribute_proposition qualifies_empty)
qed

theorem empty_label_first_proposition_member_witness:
  "list_all is_ws (speaker \<lparr>speaker = [], content = ascii ''hello'', type = debater\<rparr>)
   \<and> segmenter (ascii ''SPEAKER:'' @ [10] @ ascii ''hello'')
       = [\<lparr>speaker = [], content = ascii ''hello'', type = debater\<rparr>]
   \<and> attribute ascii_lower example_session \<lparr>speaker = [], content = ascii ''hello'', type = debater\<rparr>
       = (\<lparr>msg_role = role_model, speakerName = Some lin_xiaoyu,
           speakerSide = Some side_proposition,
           msg_avatarUrl = Some (avatar lin_xiaoyu Proposition),
           msg_content = ascii ''hello''\<rparr>, Some lin_xiaoyu)
   \<and> list_all is_ws (speaker \<lparr>speaker = [32, 12288], content = ascii ''hello'', type = debater\<rparr>)
   \<and> attribute ascii_lower example_session \<lparr>speaker = [32, 12288], content = ascii ''hello'', type = debater\<rparr>
       = (\<lparr>msg_role = role_model, speakerName = Some lin_xiaoyu,
           speakerSide = Some side_proposition,
           msg_avatarUrl = Some (avatar lin_xiaoyu Proposition),
           msg_content = ascii ''hello''\<rparr>, Some lin_xiaoyu)"
proof -
  let ?t = "\<lparr>team_side = Proposition, team_name = [27491, 26041],
         members = [\<lparr>debater_id = ascii ''prop-0'', name = lin_xiaoyu, role = [19968, 36777],
                     side = Proposition, style = [20005, 35880],
                     avatarUrl = avatar lin_xiaoyu Proposition\<rparr>]\<rparr>"
  let ?m = "\<lparr>debater_id = ascii ''prop-0'', name = lin_xiaoyu, role = [19968, 36777],
                     side = Proposition, style = [20005, 35880],
                     avatarUrl = avatar lin_xiaoyu Proposition\<rparr>"
  have h1: "\<forall>c\<in>set (speaker \<lparr>speaker = [], content = ascii ''hello'', type = debater\<rparr>). is_ws c"
    by simp
  have h1': "\<forall>c\<in>set (speaker \<lparr>speaker = [32, 12288], content = ascii ''hello'', type = debater\<rparr>). is_ws c"
    by (simp add: is_ws_def)
  have h3: "propTeam example_session = Some ?t"
    by (simp add: example_session_eq)
  have h4: "members ?t = ?m # []"
    by simp
  have sg: "segmenter (ascii ''SPEAKER:'' @ [10] @ ascii ''hello'')
       = [\<lparr>speaker = [], content = ascii ''hello'', type = debater\<rparr>]"
    by (simp add: segmenter_defs)
  show ?thesis
    using h1 h1' sg
      empty_label_first_proposition_member [OF h1 ascii_lower_ws h3 h4]
      empty_label_first_proposition_member [OF h1' ascii_lower_ws h3 h4]
    by (simp add: list_all_iff)
qed

lemma attribute_speaker_only:
  "speaker seg = speaker seg' \<Longrightarrow>
   speakerSide (fst (attribute lc s seg)) = speakerSide (fst (attribute lc s seg'))
   \<and> speakerName (fst (attribute lc s seg)) = speakerName (fst (attribute lc s seg'))
   \<and> msg_avatarUrl (fst (attribute lc s seg)) = msg_avatarUrl (fst (attribute lc s seg'))
   \<and> snd (attribute lc s seg) = snd (attribute lc s seg')"
  by (simp add: attribute_def Let_def split: option.splits)

lemma find_Some_qualifies: "find P xs = Some d \<Longrightarrow> d \<in> set xs \<and> P d"
  by (auto simp: find_Some_iff)

lemma attribute_some_member:
  assumes "dm \<in> set (roster (propTeam s) @ roster (oppTeam s))"
    and "qualifies lc (normalize lc (speaker seg)) dm"
  shows "(\<exists>d\<in>set (roster (propTeam s)). qualifies lc (normalize lc (speaker seg)) d
            \<and> attribute lc s seg =
               (\<lparr>msg_role = role_model, speakerName = Some (name d),
                 speakerSide = Some side_proposition, msg_avatarUrl = Some (avatarUrl d),
                 msg_content = content seg\<rparr>, Some (name d)))
         \<or> ((\<forall>d\<in>set (roster (propTeam s)). \<not> qualifies lc (normalize lc (speaker seg)) d)
            \<and> (\<exists>d\<in>set (roster (oppTeam s)). qualifies lc (normalize lc (speaker seg)) d
                \<and> attribute lc s seg =
                   (\<lparr>msg_role = role_model, speakerName = Some (name d),
                     speakerSide = Some side_opposition, msg_avatarUrl = Some (avatarUrl d),
                     msg_content = content seg\<rparr>, Some (name d))))"
proof (cases "find_member lc (normalize lc (speaker seg)) (propTeam s)")
  case (Some d)
  then have "d \<in> set (roster (propTeam s)) \<and> qualifies lc (normalize lc (speaker seg)) d"
    by (simp add: find_member_roster find_Some_qualifies)
  then show ?thesis
    using attribute_proposition [OF Some] by blast
next
  case None
  then have np: "\<forall>d\<in>set (roster (propTeam s)). \<not> qualifies lc (normalize lc (speaker seg)) d"
    by (simp add: find_member_roster find_None_iff)
  then have "dm \<in> set (roster (oppTeam s))"
    using assms by auto
  then have "find_member lc (normalize lc (speaker seg)) (oppTeam s) \<noteq> None"
    using assms(2) by (auto simp: find_member_roster find_None_iff)
  then obtain d where d: "find_member lc (normalize lc (speaker seg)) (oppTeam s) = Some d"
    by blast
  then have "d \<in> set (roster (oppTeam s)) \<and> qualifies lc (normalize lc (speaker seg)) d"
    by (simp add: find_member_roster find_Some_qualifies)
  then show ?thesis
    using np attribute_opposition [OF None d] by blast
qed

text \<open>
  C10. The side, the name, the avatar and the current speaker that a segment gets depend
  on its speaker string and not on its type; \<open>deliver\<close> adds the message that
  \<open>attribute\<close> gives to the messages and sets the current speaker to the one it gives.
  So a segment of type \<open>moderator\<close> with the moderator's name as its speaker, for which
  some member of a roster qualifies, is shown as spoken by a qualifying member, for the
  side of the roster in which it was found and under the name stored there, and this
  member becomes the current speaker.
\<close>

theorem attribution_ignores_type:
  "(speaker seg = speaker seg' \<longrightarrow>
      speakerSide (fst (attribute lc s seg)) = speakerSide (fst (attribute lc s seg'))
      \<and> speakerName (fst (attribute lc s seg)) = speakerName (fst (attribute lc s seg'))
      \<and> msg_avatarUrl (fst (attribute lc s seg)) = msg_avatarUrl (fst (attribute lc s seg'))
      \<and> snd (attribute lc s seg) = snd (attribute lc s seg'))
   \<and> speaking (deliver lc s app sg) = snd (attribute lc s sg)
   \<and> messages (deliver lc s app sg) = messages app @ [fst (attribute lc s sg)]
   \<and> (type sg = moderator \<and> speaker sg = zhuchiren
        \<and> dm \<in> set (roster (propTeam s) @ roster (oppTeam s))
        \<and> qualifies lc (normalize lc zhuchiren) dm \<longrightarrow>
      (\<exists>d\<in>set (roster (propTeam s)). qualifies lc (normalize lc zhuchiren) d
            \<and> attribute lc s sg =
               (\<lparr>msg_role = role_model, speakerName = Some (name d),
                 speakerSide = Some side_proposition, msg_avatarUrl = Some (avatarUrl d),
                 msg_content = content sg\<rparr>, Some (name d)))
      \<or> ((\<forall>d\<in>set (roster (propTeam s)). \<not> qualifies lc (normalize lc zhuchiren) d)
            \<and> (\<exists>d\<in>set (roster (oppTeam s)). qualifies lc (normalize lc zhuchiren) d
                \<and> attribute lc s sg =
                   (\<lparr>msg_role = role_model, speakerName = Some (name d),
                     speakerSide = Some side_opposition, msg_avatarUrl = Some (avatarUrl d),
                     msg_content = content sg\<rparr>, Some (name d)))))"
proof (intro conjI impI)
  assume "speaker seg = speaker seg'"
  then show "speakerSide (fst (attribute lc s seg)) = speakerSide (fst (attribute lc s seg'))"
    "speakerName (fst (attribute lc s seg)) = speakerName (fst (attribute lc s seg'))"
    "msg_avatarUrl (fst (attribute lc s seg)) = msg_avatarUrl (fst (attribute lc s seg'))"
    "snd (attribute lc s seg) = snd (attribute lc s seg')"
    using attribute_speaker_only [of seg seg' lc s] by simp_all
next
  show "speaking (deliver lc s app sg) = snd (attribute lc s sg)"
    by (rule deliver_fields)
next
  show "messages (deliver lc s app sg) = messages app @ [fst (attribute lc s sg)]"
    by (rule deliver_fields)
next
  assume a: "type sg = moderator \<and> speaker sg = zhuchiren
        \<and> dm \<in> set (roster (propTeam s) @ roster (oppTeam s))
        \<and> qualifies lc (normalize lc zhuchiren) dm"
  then show "(\<exists>d\<in>set (roster (propTeam s)). qualifies lc (normalize lc zhuchiren) d
            \<and> attribute lc s sg =
               (\<lparr>msg_role = role_model, speakerName = Some (name d),
                 speakerSide = Some side_proposition, msg_avatarUrl = Some (avatarUrl d),
                 msg_content = content sg\<rparr>, Some (name d)))
      \<or> ((\<forall>d\<in>set (roster (propTeam s)). \<not> qualifies lc (normalize lc zhuchiren) d)
            \<and> (\<exists>d\<in>set (roster (oppTeam s)). qualifies lc (normalize lc zhuchiren) d
                \<and> attribute lc s sg =
                   (\<lparr>msg_role = role_model, speakerName = Some (name d),
                     speakerSide = Some side_opposition, msg_avatarUrl = Some (avatarUrl d),
                     msg_content = content sg\<rparr>, Some (name d))))"
    using attribute_some_member [of dm s lc sg] by simp
qed

lemma roster_host:
  "roster (propTeam host_session) = [example_debater Proposition 0 lin_xiaoyu]"
  "roster (oppTeam host_session) = [example_debater Opposition 0 (zhuchiren @ [32769, 29579])]"
  by (simp_all add: host_session_def roster_def)

lemma host_avatar:
  "avatar (zhuchiren @ [32769, 29579]) Opposition
     = ascii ''https://api.dicebear.com/9.x/micah/png?seed=%E4%B8%BB%E6%8C%81%E4%BA%BA%E8%80%81%E7%8E%8B-opposition&backgroundColor=ffe4e6&backgroundType=gradientLinear&radius=50''"
  by (simp add: avatar_def example_avatars)

theorem attribution_ignores_type_witness:
  "segmenter (ascii ''MODERATOR: hi'') = [\<lparr>speaker = zhuchiren, content = ascii ''hi'', type = moderator\<rparr>]
   \<and> attribute ascii_lower host_session \<lparr>speaker = zhuchiren, content = ascii ''hi'', type = moderator\<rparr>
       = (\<lparr>msg_role = role_model, speakerName = Some (zhuchiren @ [32769, 29579]),
           speakerSide = Some side_opposition,
           msg_avatarUrl = Some (ascii ''https://api.dicebear.com/9.x/micah/png?seed=%E4%B8%BB%E6%8C%81%E4%BA%BA%E8%80%81%E7%8E%8B-opposition&backgroundColor=ffe4e6&backgroundType=gradientLinear&radius=50''),
           msg_content = ascii ''hi''\<rparr>, Some (zhuchiren @ [32769, 29579]))
   \<and> speaking (deliver ascii_lower host_session
        \<lparr>isLoadingTurn = True, messages = [], speaking = None, error_text = None\<rparr>
        \<lparr>speaker = zhuchiren, content = ascii ''hi'', type = moderator\<rparr>)
       = Some (zhuchiren @ [32769, 29579])
   \<and> messages (deliver ascii_lower host_session
        \<lparr>isLoadingTurn = True, messages = [], speaking = None, error_text = None\<rparr>
        \<lparr>speaker = zhuchiren, content = ascii ''hi'', type = moderator\<rparr>)
       = [\<lparr>msg_role = role_model, speakerName = Some (zhuchiren @ [32769, 29579]),
           speakerSide = Some side_opposition,
           msg_avatarUrl = Some (ascii ''https://api.dicebear.com/9.x/micah/png?seed=%E4%B8%BB%E6%8C%81%E4%BA%BA%E8%80%81%E7%8E%8B-opposition&backgroundColor=ffe4e6&backgroundType=gradientLinear&radius=50''),
           msg_content = ascii ''hi''\<rparr>]
   \<and> speakerSide (fst (attribute ascii_lower host_session \<lparr>speaker = zhuchiren, content = ascii ''hi'', type = debater\<rparr>))
       = Some side_opposition"
proof -
  let ?sg = "\<lparr>speaker = zhuchiren, content = ascii ''hi'', type = moderator\<rparr>"
  let ?sg' = "\<lparr>speaker = zhuchiren, content = ascii ''hi'', type = debater\<rparr>"
  let ?d = "example_debater Opposition 0 (zhuchiren @ [32769, 29579])"
  have h1: "speaker ?sg' = speaker ?sg"
    by simp
  have h2: "type ?sg = moderator \<and> speaker ?sg = zhuchiren
        \<and> ?d \<in> set (roster (propTeam host_session) @ roster (oppTeam host_session))
        \<and> qualifies ascii_lower (normalize ascii_lower zhuchiren) ?d"
    by (simp add: roster_host) (simp add: qualify_defs)
  have np: "\<not> qualifies ascii_lower (normalize ascii_lower zhuchiren)
       (example_debater Proposition 0 lin_xiaoyu)"
    by (simp add: qualify_defs)
  have sg: "segmenter (ascii ''MODERATOR: hi'') = [?sg]"
    by (simp add: segmenter_defs)
  show ?thesis
    using h1 h2 np sg host_avatar
      attribution_ignores_type [where seg = ?sg' and seg' = ?sg and lc = ascii_lower and s = host_session and sg = ?sg
        and dm = ?d and app = "\<lparr>isLoadingTurn = True, messages = [], speaking = None, error_text = None\<rparr>"]
    by (simp add: roster_host)
qed

text \<open>
  C2, as the claim states it, fails in its last part: the segment that \<open>nextTurn\<close>
  returns for the example turn has the label written by the model as its speaker, not
  the name of the member that the label resolves to.
\<close>

theorem nextTurn_returns_raw_labels_counterexample:
  "nextTurn example_session None example_backend
     = Inr [\<lparr>speaker = lin_xiaoyu @ [21516, 23398],
             content = [35874, 35874, 20027, 24109, 12290], type = debater\<rparr>]
   \<and> map (spec_resolved ascii_lower example_session)
       [\<lparr>speaker = lin_xiaoyu @ [21516, 23398],
         content = [35874, 35874, 20027, 24109, 12290], type = debater\<rparr>]
     = [\<lparr>speaker = lin_xiaoyu, content = [35874, 35874, 20027, 24109, 12290], type = debater\<rparr>]"
proof -
  have "nextTurn example_session None example_backend
          = Inr (segmenter example_turn)"
    by (simp add: nextTurn_initialized [OF chat_example_session] outbound_def example_backend_def
        nextTurn_receive_def)
  moreover have "segmenter example_turn
     = [\<lparr>speaker = lin_xiaoyu @ [21516, 23398],
             content = [35874, 35874, 20027, 24109, 12290], type = debater\<rparr>]"
    by (simp add: example_turn_def lin_xiaoyu_def segmenter_defs)
  moreover have "spec_resolved ascii_lower example_session
       \<lparr>speaker = lin_xiaoyu @ [21516, 23398],
         content = [35874, 35874, 20027, 24109, 12290], type = debater\<rparr>
     = \<lparr>speaker = lin_xiaoyu, content = [35874, 35874, 20027, 24109, 12290], type = debater\<rparr>"
    by (simp add: spec_resolved_def example_session_eq resolver_defs)
  ultimately show ?thesis by simp
qed

theorem nextTurn_fail_soft_witness:
  "fst (initializeTeams example_parse (new_session (ascii ''AI'')) (Inr (Some example_text)))
     = Inr (the (propTeam example_session), the (oppTeam example_session))
   \<and> example_backend (outbound (Some (ascii ''I object''))) = Inl (Thrown (Some (ascii ''quota exceeded'')))
   \<and> nextTurn example_session (Some (ascii ''I object'')) example_backend
       = Inr [\<lparr>speaker = [31995, 32479],
               content = [29983, 25104, 38169, 35823, 58, 32] @ ascii ''quota exceeded'',
               type = moderator\<rparr>]
   \<and> example_backend (outbound None) = Inr (Some example_turn)
   \<and> nextTurn example_session None example_backend = Inr (segmenter example_turn)"
proof -
  have h: "fst (initializeTeams example_parse (new_session (ascii ''AI'')) (Inr (Some example_text)))
     = Inr (the (propTeam example_session), the (oppTeam example_session))"
    using example_run by (simp add: example_session_def)
  have b1: "example_backend (outbound (Some (ascii ''I object''))) = Inl (Thrown (Some (ascii ''quota exceeded'')))"
    by (simp add: example_backend_def outbound_def default_prompt_def ascii_def)
  have b2: "example_backend (outbound None) = Inr (Some example_turn)"
    by (simp add: example_backend_def outbound_def)
  have n1: "example_backend (outbound (Some (ascii ''I object''))) \<noteq> Inl Nullish"
    by (simp add: b1)
  have n2: "example_backend (outbound None) \<noteq> Inl Nullish"
    by (simp add: b2)
  show ?thesis
    using h b1 b2 n1 n2
      nextTurn_fail_soft [OF h, of example_backend "Some (ascii ''I object'')" "Some (ascii ''quota exceeded'')"]
      nextTurn_fail_soft [OF h, of example_backend None _ "Some example_turn"]
    by (simp add: example_session_def [symmetric] message_of_def)
qed

end
